theory Spec2Isabelle
  imports Complex_Main
begin

section \<open>Values read from the wire\<close>

text \<open>
  The payloads handed to \<open>Presence.__init__\<close> and \<open>Shout.__init__\<close> are what
  Python's JSON decoder returns: \<open>None\<close>, \<open>bool\<close>, \<open>int\<close>, \<open>float\<close>, \<open>str\<close>,
  \<open>list\<close> and \<open>dict\<close>. A dict is kept as an association list read with \<open>map_of\<close>
  (the first binding of a key is the one the dict holds). Python's decoder also accepts
  the non-finite floats, so they are constructors of their own.
\<close>

datatype pyfloat = Finite real | NaN | PosInfinity | NegInfinity

datatype json =
    JNull
  | JBool bool
  | JInt int
  | JFloat pyfloat
  | JStr string
  | JArr "json list"
  | JObj "(string \<times> json) list"

text \<open>
  The exceptions that can leave the two modules. \<open>KeyError k\<close> is raised by \<open>data[k]\<close>
  on a dict without \<open>k\<close> (the spec's \<open>MissingRequiredField\<close> naming \<open>k\<close>, and for
  the top-level key of a response its \<open>MalformedResponse\<close>); \<open>ValueError v\<close> is raised
  by the enum call \<open>PresenceType(v)\<close> (the spec's \<open>InvalidEnumValue\<close>); \<open>ParserError s\<close>
  is what the timestamp parser raises on a string it cannot read (the spec's
  \<open>MalformedTimestamp\<close>); \<open>TypeError\<close> and \<open>AttributeError\<close> come from subscripting,
  iterating or calling \<open>.get\<close> on a value of the wrong type; \<open>RequestError\<close> stands
  for whatever the transport raises.
\<close>

datatype py_error =
    KeyError string
  | ValueError json
  | TypeError
  | AttributeError
  | ParserError string
  | RequestError string

text \<open>Raising is the left injection; \<open>bind\<close> sequences two statements.\<close>

definition bind :: "py_error + 'a \<Rightarrow> ('a \<Rightarrow> py_error + 'b) \<Rightarrow> py_error + 'b" where
  "bind m f = (case m of Inl e \<Rightarrow> Inl e | Inr x \<Rightarrow> f x)"

text \<open>\<open>data[k]\<close>: only a dict can be subscripted with a string.\<close>

fun getitem :: "json \<Rightarrow> string \<Rightarrow> py_error + json" where
  "getitem (JObj d) k = (case map_of d k of None \<Rightarrow> Inl (KeyError k) | Some v \<Rightarrow> Inr v)"
| "getitem _ k = Inl TypeError"

text \<open>\<open>data.get(k)\<close>: \<open>None\<close> for a missing key; only a dict has the method.\<close>

fun dict_get :: "json \<Rightarrow> string \<Rightarrow> py_error + json" where
  "dict_get (JObj d) k = (case map_of d k of None \<Rightarrow> Inr JNull | Some v \<Rightarrow> Inr v)"
| "dict_get _ k = Inl AttributeError"

text \<open>The truth value Python gives a decoded value in \<open>if v\<close>.\<close>

fun truthy :: "json \<Rightarrow> bool" where
  "truthy JNull = False"
| "truthy (JBool b) = b"
| "truthy (JInt n) = (n \<noteq> 0)"
| "truthy (JFloat (Finite x)) = (x \<noteq> 0)"
| "truthy (JFloat _) = True"
| "truthy (JStr s) = (s \<noteq> [])"
| "truthy (JArr xs) = (xs \<noteq> [])"
| "truthy (JObj d) = (d \<noteq> [])"

text \<open>
  The decoded values that Python takes for false: \<open>None\<close>, \<open>False\<close>, the integer and
  the float zero, the empty string, the empty list and the empty dict.
\<close>

abbreviation falsy_values :: "json set" where
  "falsy_values \<equiv> {JNull, JBool False, JInt 0, JFloat (Finite 0), JStr [], JArr [], JObj []}"

text \<open>
  \<open>for x in v\<close>: a list yields its elements, a string its one-character strings, a
  dict its keys; nothing else is iterable.
\<close>

fun py_iter :: "json \<Rightarrow> py_error + json list" where
  "py_iter (JArr xs) = Inr xs"
| "py_iter (JStr s) = Inr (map (\<lambda>c. JStr [c]) s)"
| "py_iter (JObj d) = Inr (map JStr (remdups (map fst d)))"
| "py_iter _ = Inl TypeError"

text \<open>
  A list comprehension \<open>[f(x) for x in xs]\<close> whose body may raise: the elements are
  built from left to right and the first exception ends the comprehension.
\<close>

fun comprehension :: "('a \<Rightarrow> py_error + 'b) \<Rightarrow> 'a list \<Rightarrow> py_error + 'b list" where
  "comprehension f [] = Inr []"
| "comprehension f (x # xs) =
     bind (f x) (\<lambda>y. bind (comprehension f xs) (\<lambda>ys. Inr (y # ys)))"

section \<open>The presence type\<close>

datatype PresenceType = offline | online | in_game | in_studio

fun PresenceType_value :: "PresenceType \<Rightarrow> int" where
  "PresenceType_value offline = 0"
| "PresenceType_value online = 1"
| "PresenceType_value in_game = 2"
| "PresenceType_value in_studio = 3"

definition PresenceType_members :: "PresenceType list" where
  "PresenceType_members = [offline, online, in_game, in_studio]"

text \<open>
  Python's \<open>==\<close> between a decoded value and an \<open>int\<close>: an int equals itself, \<open>True\<close>
  is 1 and \<open>False\<close> is 0, a float equals the integer it denotes, everything else is
  unequal.
\<close>

fun py_eq_int :: "json \<Rightarrow> int \<Rightarrow> bool" where
  "py_eq_int (JInt n) i = (n = i)"
| "py_eq_int (JBool b) i = ((if b then 1 else 0) = i)"
| "py_eq_int (JFloat (Finite x)) i = (x = of_int i)"
| "py_eq_int _ i = False"

text \<open>
  The call \<open>PresenceType(v)\<close> of an \<open>IntEnum\<close>: the member whose value equals \<open>v\<close>, and
  \<open>ValueError\<close> when there is none.
\<close>

definition PresenceType_call :: "json \<Rightarrow> py_error + PresenceType" where
  "PresenceType_call v =
     (case find (\<lambda>m. py_eq_int v (PresenceType_value m)) PresenceType_members of
        Some m \<Rightarrow> Inr m
      | None \<Rightarrow> Inl (ValueError v))"

section \<open>Reference handles\<close>

text \<open>
  Modelled from the spec: the classes \<open>BasePlace\<close>, \<open>BaseJob\<close>, \<open>BaseUniverse\<close> and
  \<open>BaseUser\<close> (and \<open>client.get_base_user\<close>, which builds the last one) are imported
  by \<open>presence.py\<close> and not part of the two modules. The spec describes each as a
  minimal value holding an identifier plus a reference to the shared client context,
  built without input or output; the constructor stores both arguments as given.
\<close>

record ('c, 'i) BasePlace =
  BasePlace_client :: 'c
  BasePlace_id :: 'i

record ('c, 'i) BaseJob =
  BaseJob_client :: 'c
  BaseJob_id :: 'i

record ('c, 'i) BaseUniverse =
  BaseUniverse_client :: 'c
  BaseUniverse_id :: 'i

record ('c, 'i) BaseUser =
  BaseUser_client :: 'c
  BaseUser_id :: 'i

definition get_base_user :: "'c \<Rightarrow> 'i \<Rightarrow> ('c, 'i) BaseUser" where
  "get_base_user client user_id = \<lparr>BaseUser_client = client, BaseUser_id = user_id\<rparr>"

section \<open>Presence\<close>

record ('c, 't) Presence =
  Presence_client :: 'c
  user_presence_type :: PresenceType
  last_location :: json
  place :: "('c, json) BasePlace option"
  root_place :: "('c, json) BasePlace option"
  job :: "('c, json) BaseJob option"
  universe :: "('c, json) BaseUniverse option"
  user :: "('c, json) BaseUser"
  last_online :: 't

text \<open>
  \<open>Presence.__init__(self, client, data)\<close>, statement by statement. The timestamp
  parser \<open>parse\<close> (from \<open>dateutil\<close>) is a parameter: it returns a timestamp or raises.
\<close>

definition Presence_init ::
  "(json \<Rightarrow> py_error + 't) \<Rightarrow> 'c \<Rightarrow> json \<Rightarrow> py_error + ('c, 't) Presence" where
  "Presence_init parse client data =
     bind (getitem data ''userPresenceType'') (\<lambda>raw.
     bind (PresenceType_call raw) (\<lambda>pt.
     bind (getitem data ''lastLocation'') (\<lambda>loc.
     bind (bind (dict_get data ''placeId'') (\<lambda>t.
             if truthy t
             then bind (getitem data ''placeId'') (\<lambda>i.
                    Inr (Some \<lparr>BasePlace_client = client, BasePlace_id = i\<rparr>))
             else Inr None)) (\<lambda>pl.
     bind (bind (dict_get data ''rootPlaceId'') (\<lambda>t.
             if truthy t
             then bind (getitem data ''rootPlaceId'') (\<lambda>i.
                    Inr (Some \<lparr>BasePlace_client = client, BasePlace_id = i\<rparr>))
             else Inr None)) (\<lambda>rp.
     bind (bind (dict_get data ''gameId'') (\<lambda>t.
             if truthy t
             then bind (getitem data ''gameId'') (\<lambda>i.
                    Inr (Some \<lparr>BaseJob_client = client, BaseJob_id = i\<rparr>))
             else Inr None)) (\<lambda>jb.
     bind (bind (dict_get data ''universeId'') (\<lambda>t.
             if truthy t
             then bind (getitem data ''universeId'') (\<lambda>i.
                    Inr (Some \<lparr>BaseUniverse_client = client, BaseUniverse_id = i\<rparr>))
             else Inr None)) (\<lambda>un.
     bind (getitem data ''userId'') (\<lambda>uid.
     bind (getitem data ''lastOnline'') (\<lambda>lo_raw.
     bind (parse lo_raw) (\<lambda>lo.
       Inr \<lparr>Presence_client = client,
            user_presence_type = pt,
            last_location = loc,
            place = pl,
            root_place = rp,
            job = jb,
            universe = un,
            user = get_base_user client uid,
            last_online = lo\<rparr>))))))))))"

section \<open>The presence provider\<close>

record 'c PresenceProvider =
  PresenceProvider_client :: 'c

text \<open>
  Modelled from the spec: a user passed to \<open>get_user_presences\<close> is a raw integer id or
  a user handle; \<open>int\<close> of a handle (defined on the handles' base class, which is not
  part of the two modules) is the handle's integer id.
\<close>

datatype 'c UserOrUserId = UserId int | UserObj "('c, int) BaseUser"

fun py_int :: "'c UserOrUserId \<Rightarrow> int" where
  "py_int (UserId n) = n"
| "py_int (UserObj u) = BaseUser_id u"

record request =
  request_method :: string
  request_url :: string
  request_json :: json

text \<open>
  \<open>PresenceProvider.get_user_presences(self, users)\<close>. The client's transport
  (\<open>requests.post\<close> followed by \<open>.json()\<close> on the response) and its URL generator are
  parameters that take the client. The result is the list of requests issued (each
  with its method, URL and JSON body) together with what the coroutine returns or
  raises.
\<close>

definition get_user_presences ::
  "('c \<Rightarrow> request \<Rightarrow> py_error + json) \<Rightarrow> ('c \<Rightarrow> string \<Rightarrow> string \<Rightarrow> string) \<Rightarrow>
   (json \<Rightarrow> py_error + 't) \<Rightarrow> 'c PresenceProvider \<Rightarrow> 'c UserOrUserId list \<Rightarrow>
   request list \<times> (py_error + ('c, 't) Presence list)" where
  "get_user_presences post get_url parse self users =
     (let req = \<lparr>request_method = ''POST'', request_url = get_url (PresenceProvider_client self) ''presence'' ''v1/presence/users'',
                 request_json = JObj [(''userIds'', JArr (map JInt (map py_int users)))]\<rparr>
      in ([req],
          bind (post (PresenceProvider_client self) req) (\<lambda>presences_response.
          bind (getitem presences_response ''userPresences'') (\<lambda>presences_data.
          bind (py_iter presences_data) (\<lambda>items.
            comprehension (Presence_init parse (PresenceProvider_client self)) items)))))"

section \<open>Shout\<close>

record ('c, 't, 'u) Shout =
  Shout_shared :: 'c
  body :: json
  created :: 't
  updated :: 't
  poster :: 'u

text \<open>
  \<open>Shout.__init__(self, shared, data)\<close>. The partial-user constructor and the timestamp
  parser are imported by \<open>shout.py\<close>; both are parameters.
\<close>

definition Shout_init ::
  "('c \<Rightarrow> json \<Rightarrow> py_error + 'u) \<Rightarrow> (json \<Rightarrow> py_error + 't) \<Rightarrow> 'c \<Rightarrow> json \<Rightarrow>
   py_error + ('c, 't, 'u) Shout" where
  "Shout_init PartialUser parse shared data =
     bind (getitem data ''body'') (\<lambda>b.
     bind (getitem data ''created'') (\<lambda>c_raw.
     bind (parse c_raw) (\<lambda>c.
     bind (getitem data ''updated'') (\<lambda>u_raw.
     bind (parse u_raw) (\<lambda>u.
     bind (getitem data ''poster'') (\<lambda>p_raw.
     bind (PartialUser shared p_raw) (\<lambda>p.
       Inr \<lparr>Shout_shared = shared, body = b, created = c, updated = u, poster = p\<rparr>)))))))"

text \<open>
  Modelled from the spec: the partial-user constructor is not part of the two modules,
  and the spec delegates how it reads the poster object. A partial-user reference is a
  handle holding the shared context and the poster object it was built from.
\<close>

record 'c PartialUser =
  PartialUser_shared :: 'c
  PartialUser_data :: json

definition PartialUser_init :: "'c \<Rightarrow> json \<Rightarrow> py_error + 'c PartialUser" where
  "PartialUser_init shared data = Inr \<lparr>PartialUser_shared = shared, PartialUser_data = data\<rparr>"

text \<open>
  A timestamp parser for concrete inputs: it reads the two timestamps of the spec's
  examples and one with a numeric offset, and keeps the string, zone designator
  included, as the parsed value; it rejects every other string and everything that is
  not a string. The zone designator of such a timestamp is what follows its nineteen
  characters of date and time.
\<close>

definition example_parse :: "json \<Rightarrow> py_error + string" where
  "example_parse j =
     (case j of
        JStr s \<Rightarrow>
          if s = ''2023-01-01T00:00:00Z'' \<or> s = ''2023-01-02T00:00:00Z''
             \<or> s = ''2023-01-01T05:00:00+05:00'' then Inr s
          else Inl (ParserError s)
      | _ \<Rightarrow> Inl TypeError)"



text \<open>
  Transports for concrete inputs: one that answers every request with the same decoded
  response, one that answers only the request it expects and refuses every other, and
  one that always raises; and a URL generator in the shape of the client's.
\<close>

definition reply_with :: "json \<Rightarrow> 'c \<Rightarrow> request \<Rightarrow> py_error + json" where
  "reply_with response client req = Inr response"

definition reply_to :: "request \<Rightarrow> json \<Rightarrow> 'c \<Rightarrow> request \<Rightarrow> py_error + json" where
  "reply_to expected response client req =
     (if req = expected then Inr response else Inl (RequestError ''unexpected request''))"

definition refuse_with :: "py_error \<Rightarrow> 'c \<Rightarrow> request \<Rightarrow> py_error + json" where
  "refuse_with e client req = Inl e"

definition example_get_url :: "'c \<Rightarrow> string \<Rightarrow> string \<Rightarrow> string" where
  "example_get_url client subdomain path = ''https://'' @ subdomain @ ''.roblox.com/'' @ path"

text \<open>The well-formed presence entry and the shout payload of the spec's examples.\<close>

definition example_presence :: "(string \<times> json) list" where
  "example_presence =
     [(''userPresenceType'', JInt 2),
      (''lastLocation'', JStr ''Baseplate''),
      (''placeId'', JInt 123),
      (''rootPlaceId'', JInt 0),
      (''gameId'', JNull),
      (''userId'', JInt 789),
      (''lastOnline'', JStr ''2023-01-01T00:00:00Z'')]"

definition example_shout :: "(string \<times> json) list" where
  "example_shout =
     [(''body'', JStr ''hi''),
      (''created'', JStr ''2023-01-01T00:00:00Z''),
      (''updated'', JStr ''2023-01-02T00:00:00Z''),
      (''poster'', JObj [(''userId'', JInt 1), (''username'', JStr ''a'')])]"

section \<open>Basic facts\<close>

lemma bind_Inl [simp]: "bind (Inl e) f = Inl e"
  by (simp add: bind_def)

lemma bind_Inr [simp]: "bind (Inr x) f = f x"
  by (simp add: bind_def)

lemma bind_eq_Inr_iff: "bind m f = Inr y \<longleftrightarrow> (\<exists>x. m = Inr x \<and> f x = Inr y)"
  by (cases m) simp_all

lemma bind_eq_Inl_iff:
  "bind m f = Inl e \<longleftrightarrow> m = Inl e \<or> (\<exists>x. m = Inr x \<and> f x = Inl e)"
  by (cases m) simp_all

section \<open>What the constructor of a presence computes\<close>

lemma optional_reference:
  "bind (dict_get (JObj d) k) (\<lambda>t. if truthy t then bind (getitem (JObj d) k) (\<lambda>i. Inr (Some (mk i))) else Inr None)
   = Inr (case map_of d k of None \<Rightarrow> None | Some v \<Rightarrow> if truthy v then Some (mk v) else None)"
  by (cases "map_of d k") simp_all

lemma Presence_init_JObj:
  "Presence_init parse client (JObj d) =
     bind (getitem (JObj d) ''userPresenceType'') (\<lambda>raw.
     bind (PresenceType_call raw) (\<lambda>pt.
     bind (getitem (JObj d) ''lastLocation'') (\<lambda>loc.
     bind (getitem (JObj d) ''userId'') (\<lambda>uid.
     bind (getitem (JObj d) ''lastOnline'') (\<lambda>lo_raw.
     bind (parse lo_raw) (\<lambda>lo.
        Inr \<lparr>Presence_client = client,
            user_presence_type = pt,
            last_location = loc,
            place = (case map_of d ''placeId'' of None \<Rightarrow> None
                     | Some v \<Rightarrow> if truthy v then Some \<lparr>BasePlace_client = client, BasePlace_id = v\<rparr> else None),
            root_place = (case map_of d ''rootPlaceId'' of None \<Rightarrow> None
                     | Some v \<Rightarrow> if truthy v then Some \<lparr>BasePlace_client = client, BasePlace_id = v\<rparr> else None),
            job = (case map_of d ''gameId'' of None \<Rightarrow> None
                     | Some v \<Rightarrow> if truthy v then Some \<lparr>BaseJob_client = client, BaseJob_id = v\<rparr> else None),
            universe = (case map_of d ''universeId'' of None \<Rightarrow> None
                     | Some v \<Rightarrow> if truthy v then Some \<lparr>BaseUniverse_client = client, BaseUniverse_id = v\<rparr> else None),
            user = \<lparr>BaseUser_client = client, BaseUser_id = uid\<rparr>,
            last_online = lo\<rparr>))))))"
  unfolding Presence_init_def get_base_user_def
  by (simp only: optional_reference bind_Inr)

lemma Presence_init_not_JObj:
  "(\<forall>d. data \<noteq> JObj d) \<Longrightarrow> Presence_init parse client data = Inl TypeError"
  by (cases data) (simp_all add: Presence_init_def)

lemma Presence_init_Inr_fields:
  assumes "Presence_init parse client (JObj d) = Inr r"
  shows "Presence_client r = client"
    and "place r = (case map_of d ''placeId'' of None \<Rightarrow> None
                     | Some v \<Rightarrow> if truthy v then Some \<lparr>BasePlace_client = client, BasePlace_id = v\<rparr> else None)"
    and "root_place r = (case map_of d ''rootPlaceId'' of None \<Rightarrow> None
                     | Some v \<Rightarrow> if truthy v then Some \<lparr>BasePlace_client = client, BasePlace_id = v\<rparr> else None)"
    and "job r = (case map_of d ''gameId'' of None \<Rightarrow> None
                     | Some v \<Rightarrow> if truthy v then Some \<lparr>BaseJob_client = client, BaseJob_id = v\<rparr> else None)"
    and "universe r = (case map_of d ''universeId'' of None \<Rightarrow> None
                     | Some v \<Rightarrow> if truthy v then Some \<lparr>BaseUniverse_client = client, BaseUniverse_id = v\<rparr> else None)"
    and "\<exists>uid. map_of d ''userId'' = Some uid \<and> user r = \<lparr>BaseUser_client = client, BaseUser_id = uid\<rparr>"
    and "\<exists>raw. map_of d ''userPresenceType'' = Some raw \<and> PresenceType_call raw = Inr (user_presence_type r)"
    and "\<exists>lo. map_of d ''lastOnline'' = Some lo \<and> parse lo = Inr (last_online r)"
    and "map_of d ''lastLocation'' = Some (last_location r)"
proof -
  from assms obtain raw pt loc uid lo_raw lo where
    f: "getitem (JObj d) ''userPresenceType'' = Inr raw" "PresenceType_call raw = Inr pt"
       "getitem (JObj d) ''lastLocation'' = Inr loc" "getitem (JObj d) ''userId'' = Inr uid"
       "getitem (JObj d) ''lastOnline'' = Inr lo_raw" "parse lo_raw = Inr lo"
    and r: "r = \<lparr>Presence_client = client,
            user_presence_type = pt,
            last_location = loc,
            place = (case map_of d ''placeId'' of None \<Rightarrow> None
                     | Some v \<Rightarrow> if truthy v then Some \<lparr>BasePlace_client = client, BasePlace_id = v\<rparr> else None),
            root_place = (case map_of d ''rootPlaceId'' of None \<Rightarrow> None
                     | Some v \<Rightarrow> if truthy v then Some \<lparr>BasePlace_client = client, BasePlace_id = v\<rparr> else None),
            job = (case map_of d ''gameId'' of None \<Rightarrow> None
                     | Some v \<Rightarrow> if truthy v then Some \<lparr>BaseJob_client = client, BaseJob_id = v\<rparr> else None),
            universe = (case map_of d ''universeId'' of None \<Rightarrow> None
                     | Some v \<Rightarrow> if truthy v then Some \<lparr>BaseUniverse_client = client, BaseUniverse_id = v\<rparr> else None),
            user = \<lparr>BaseUser_client = client, BaseUser_id = uid\<rparr>,
            last_online = lo\<rparr>"
    unfolding Presence_init_JObj bind_eq_Inr_iff by blast
  have g: "map_of d ''userPresenceType'' = Some raw" "map_of d ''lastLocation'' = Some loc"
     "map_of d ''userId'' = Some uid" "map_of d ''lastOnline'' = Some lo_raw"
    using f by (simp_all split: option.splits)
  show "Presence_client r = client" by (simp add: r)
  show "place r = (case map_of d ''placeId'' of None \<Rightarrow> None
                     | Some v \<Rightarrow> if truthy v then Some \<lparr>BasePlace_client = client, BasePlace_id = v\<rparr> else None)"
    by (simp add: r)
  show "root_place r = (case map_of d ''rootPlaceId'' of None \<Rightarrow> None
                     | Some v \<Rightarrow> if truthy v then Some \<lparr>BasePlace_client = client, BasePlace_id = v\<rparr> else None)"
    by (simp add: r)
  show "job r = (case map_of d ''gameId'' of None \<Rightarrow> None
                     | Some v \<Rightarrow> if truthy v then Some \<lparr>BaseJob_client = client, BaseJob_id = v\<rparr> else None)"
    by (simp add: r)
  show "universe r = (case map_of d ''universeId'' of None \<Rightarrow> None
                     | Some v \<Rightarrow> if truthy v then Some \<lparr>BaseUniverse_client = client, BaseUniverse_id = v\<rparr> else None)"
    by (simp add: r)
  show "\<exists>uid. map_of d ''userId'' = Some uid \<and> user r = \<lparr>BaseUser_client = client, BaseUser_id = uid\<rparr>"
    by (simp add: r g)
  show "\<exists>raw. map_of d ''userPresenceType'' = Some raw \<and> PresenceType_call raw = Inr (user_presence_type r)"
    by (simp add: r g f)
  show "\<exists>lo. map_of d ''lastOnline'' = Some lo \<and> parse lo = Inr (last_online r)"
    by (simp add: r g f)
  show "map_of d ''lastLocation'' = Some (last_location r)"
    by (simp add: r g)
qed

lemma example_presence_init:
  "\<exists>r. Presence_init example_parse ''client'' (JObj example_presence) = Inr r"
  by (simp add: Presence_init_JObj example_presence_def example_parse_def
        PresenceType_call_def PresenceType_members_def)

lemma Presence_init_succeeds:
  assumes "map_of d ''userPresenceType'' = Some raw" and "PresenceType_call raw = Inr pt"
    and "map_of d ''lastLocation'' = Some loc" and "map_of d ''userId'' = Some uid"
    and "map_of d ''lastOnline'' = Some lo" and "parse lo = Inr t"
  shows "\<exists>r. Presence_init parse client (JObj d) = Inr r"
  by (simp add: Presence_init_JObj assms)

section \<open>Optional identifier fields\<close>

lemma optional_reference_plain:
  assumes "x = (case m of None \<Rightarrow> None | Some v \<Rightarrow> if truthy v then Some (mk v) else None)"
  shows "m = None \<or> m = Some JNull \<or> m = Some (JInt 0) \<longrightarrow> x = None"
    and "\<forall>n. 0 < n \<and> m = Some (JInt n) \<longrightarrow> x = Some (mk (JInt n))"
  using assms by auto

text \<open>
  C1. For every presence payload and each of the four optional identifier fields
  \<open>placeId\<close>, \<open>rootPlaceId\<close>, \<open>gameId\<close>, \<open>universeId\<close>: when the field is absent, null
  or 0 the constructed record has no corresponding reference (\<open>place\<close>, \<open>root_place\<close>,
  \<open>job\<close>, \<open>universe\<close> is \<open>None\<close>); when the field is a positive integer \<open>n\<close> the
  record holds a reference that stores exactly \<open>n\<close> (and the client). This holds of
  every record the constructor returns, and the constructor does return such a record
  whenever the required fields are well-formed: a valid \<open>userPresenceType\<close>,
  \<open>lastLocation\<close> and \<open>userId\<close> present, and a \<open>lastOnline\<close> that parses.
\<close>
theorem optional_identifier_fields:
  "(\<forall>r. Presence_init parse client (JObj d) = Inr r \<longrightarrow>
       (map_of d ''placeId'' = None \<or> map_of d ''placeId'' = Some JNull
            \<or> map_of d ''placeId'' = Some (JInt 0) \<longrightarrow> place r = None)
     \<and> (\<forall>n. 0 < n \<and> map_of d ''placeId'' = Some (JInt n) \<longrightarrow>
             place r = Some \<lparr>BasePlace_client = client, BasePlace_id = JInt n\<rparr>)
     \<and> (map_of d ''rootPlaceId'' = None \<or> map_of d ''rootPlaceId'' = Some JNull
            \<or> map_of d ''rootPlaceId'' = Some (JInt 0) \<longrightarrow> root_place r = None)
     \<and> (\<forall>n. 0 < n \<and> map_of d ''rootPlaceId'' = Some (JInt n) \<longrightarrow>
             root_place r = Some \<lparr>BasePlace_client = client, BasePlace_id = JInt n\<rparr>)
     \<and> (map_of d ''gameId'' = None \<or> map_of d ''gameId'' = Some JNull
            \<or> map_of d ''gameId'' = Some (JInt 0) \<longrightarrow> job r = None)
     \<and> (\<forall>n. 0 < n \<and> map_of d ''gameId'' = Some (JInt n) \<longrightarrow>
             job r = Some \<lparr>BaseJob_client = client, BaseJob_id = JInt n\<rparr>)
     \<and> (map_of d ''universeId'' = None \<or> map_of d ''universeId'' = Some JNull
            \<or> map_of d ''universeId'' = Some (JInt 0) \<longrightarrow> universe r = None)
     \<and> (\<forall>n. 0 < n \<and> map_of d ''universeId'' = Some (JInt n) \<longrightarrow>
             universe r = Some \<lparr>BaseUniverse_client = client, BaseUniverse_id = JInt n\<rparr>))
   \<and> ((\<exists>raw pt loc uid lo t.
          map_of d ''userPresenceType'' = Some raw \<and> PresenceType_call raw = Inr pt
        \<and> map_of d ''lastLocation'' = Some loc \<and> map_of d ''userId'' = Some uid
        \<and> map_of d ''lastOnline'' = Some lo \<and> parse lo = Inr t) \<longrightarrow>
       (\<exists>r. Presence_init parse client (JObj d) = Inr r
          \<and> (map_of d ''placeId'' = None \<or> map_of d ''placeId'' = Some JNull
                \<or> map_of d ''placeId'' = Some (JInt 0) \<longrightarrow> place r = None)
          \<and> (\<forall>n. 0 < n \<and> map_of d ''placeId'' = Some (JInt n) \<longrightarrow>
                place r = Some \<lparr>BasePlace_client = client, BasePlace_id = JInt n\<rparr>)
          \<and> (map_of d ''rootPlaceId'' = None \<or> map_of d ''rootPlaceId'' = Some JNull
                \<or> map_of d ''rootPlaceId'' = Some (JInt 0) \<longrightarrow> root_place r = None)
          \<and> (\<forall>n. 0 < n \<and> map_of d ''rootPlaceId'' = Some (JInt n) \<longrightarrow>
                root_place r = Some \<lparr>BasePlace_client = client, BasePlace_id = JInt n\<rparr>)
          \<and> (map_of d ''gameId'' = None \<or> map_of d ''gameId'' = Some JNull
                \<or> map_of d ''gameId'' = Some (JInt 0) \<longrightarrow> job r = None)
          \<and> (\<forall>n. 0 < n \<and> map_of d ''gameId'' = Some (JInt n) \<longrightarrow>
                job r = Some \<lparr>BaseJob_client = client, BaseJob_id = JInt n\<rparr>)
          \<and> (map_of d ''universeId'' = None \<or> map_of d ''universeId'' = Some JNull
                \<or> map_of d ''universeId'' = Some (JInt 0) \<longrightarrow> universe r = None)
          \<and> (\<forall>n. 0 < n \<and> map_of d ''universeId'' = Some (JInt n) \<longrightarrow>
                universe r = Some \<lparr>BaseUniverse_client = client, BaseUniverse_id = JInt n\<rparr>)))"
  (is "(\<forall>r. ?built r \<longrightarrow> ?P r) \<and> (?ok \<longrightarrow> (\<exists>r. ?built' r \<and> ?P' r))")
proof -
  have P: "?P r" if h: "?built r" for r
  proof -
    note f = Presence_init_Inr_fields [OF h]
    note 1 = optional_reference_plain [OF f(2)]
    note 2 = optional_reference_plain [OF f(3)]
    note 3 = optional_reference_plain [OF f(4)]
    note 4 = optional_reference_plain [OF f(5)]
    show ?thesis
      by (rule conjI [OF 1(1) conjI [OF 1(2) conjI [OF 2(1) conjI [OF 2(2)
            conjI [OF 3(1) conjI [OF 3(2) conjI [OF 4(1) 4(2)]]]]]]])
  qed
  have a: "\<forall>r. ?built r \<longrightarrow> ?P r"
    by (intro allI impI) (erule P)
  have b: "?ok \<longrightarrow> (\<exists>r. ?built r \<and> ?P r)"
  proof
    assume ?ok
    then obtain raw pt loc uid lo t where
      f: "map_of d ''userPresenceType'' = Some raw" "PresenceType_call raw = Inr pt"
         "map_of d ''lastLocation'' = Some loc" "map_of d ''userId'' = Some uid"
         "map_of d ''lastOnline'' = Some lo" "parse lo = Inr t"
      by (elim exE conjE)
    from Presence_init_succeeds [where parse = parse and client = client, OF f]
    obtain r where r: "?built r" ..
    show "\<exists>r. ?built r \<and> ?P r"
      by (rule exI [of _ r]) (rule conjI [OF r P [OF r]])
  qed
  show ?thesis by (rule conjI [OF a b])
qed

theorem optional_identifier_fields_witness:
  "\<exists>r. Presence_init example_parse ''client'' (JObj example_presence) = Inr r
     \<and> place r = Some \<lparr>BasePlace_client = ''client'', BasePlace_id = JInt 123\<rparr>
     \<and> root_place r = None \<and> job r = None \<and> universe r = None"
proof -
  have m: "map_of example_presence ''placeId'' = Some (JInt 123)"
    "map_of example_presence ''rootPlaceId'' = Some (JInt 0)"
    "map_of example_presence ''gameId'' = Some JNull"
    "map_of example_presence ''universeId'' = None"
    by (simp_all add: example_presence_def)
  have ok: "\<exists>raw pt loc uid lo t.
          map_of example_presence ''userPresenceType'' = Some raw \<and> PresenceType_call raw = Inr pt
        \<and> map_of example_presence ''lastLocation'' = Some loc
        \<and> map_of example_presence ''userId'' = Some uid
        \<and> map_of example_presence ''lastOnline'' = Some lo \<and> example_parse lo = Inr t"
    by (simp add: example_presence_def example_parse_def PresenceType_call_def
          PresenceType_members_def)
  note w = optional_identifier_fields [of example_parse "''client''" example_presence]
  from w [THEN conjunct2, THEN mp, OF ok]
  have "\<exists>r. Presence_init example_parse ''client'' (JObj example_presence) = Inr r"
    by (elim exE conjE) (rule exI)
  then obtain r where r: "Presence_init example_parse ''client'' (JObj example_presence) = Inr r" ..
  note P = w [THEN conjunct1, THEN spec, THEN mp, OF r]
  note 2 = P [THEN conjunct2, THEN conjunct1]
  note 3 = P [THEN conjunct2, THEN conjunct2, THEN conjunct1]
  note 5 = P [THEN conjunct2, THEN conjunct2, THEN conjunct2, THEN conjunct2, THEN conjunct1]
  note 7 = P [THEN conjunct2, THEN conjunct2, THEN conjunct2, THEN conjunct2, THEN conjunct2,
      THEN conjunct2, THEN conjunct1]
  from 2 m(1) have p: "place r = Some \<lparr>BasePlace_client = ''client'', BasePlace_id = JInt 123\<rparr>"
    by simp
  from 3 m(2) have rp: "root_place r = None" by simp
  from 5 m(3) have j: "job r = None" by simp
  from 7 m(4) have u: "universe r = None" by simp
  from r p rp j u show ?thesis by blast
qed

section \<open>The test on the optional identifiers is truthiness\<close>

lemma truthy_iff_not_falsy: "truthy v \<longleftrightarrow> v \<notin> falsy_values"
proof (cases v)
  case (JFloat x)
  then show ?thesis by (cases x) simp_all
qed auto

lemma optional_reference_falsy:
  assumes "x = (case m of None \<Rightarrow> None | Some v \<Rightarrow> if truthy v then Some (mk v) else None)"
  shows "x = None \<longleftrightarrow> m = None \<or> (\<exists>v. m = Some v \<and> v \<in> falsy_values)"
    and "\<forall>v. m = Some v \<and> v \<notin> falsy_values \<longrightarrow> x = Some (mk v)"
    and "\<forall>n. n < 0 \<and> m = Some (JInt n) \<longrightarrow> x = Some (mk (JInt n))"
proof -
  show "x = None \<longleftrightarrow> m = None \<or> (\<exists>v. m = Some v \<and> v \<in> falsy_values)"
  proof (cases m)
    case None
    with assms show ?thesis by simp
  next
    case (Some v)
    with assms truthy_iff_not_falsy [of v] show ?thesis by (cases "truthy v") simp_all
  qed
  show "\<forall>v. m = Some v \<and> v \<notin> falsy_values \<longrightarrow> x = Some (mk v)"
  proof (intro allI impI)
    fix v assume "m = Some v \<and> v \<notin> falsy_values"
    then have "m = Some v" "truthy v" using truthy_iff_not_falsy [of v] by simp_all
    with assms show "x = Some (mk v)" by simp
  qed
  show "\<forall>n. n < 0 \<and> m = Some (JInt n) \<longrightarrow> x = Some (mk (JInt n))"
    using assms by auto
qed

text \<open>
  C10. The test that decides whether a reference is built for \<open>placeId\<close>,
  \<open>rootPlaceId\<close>, \<open>gameId\<close> and \<open>universeId\<close> is Python's truth value of the decoded
  value, not membership in \<open>{absent, null, 0}\<close>. The record has no reference exactly when
  the field is absent or holds one of the false values \<open>null\<close>, \<open>false\<close>, \<open>0\<close>, \<open>0.0\<close>, the
  empty string, the empty list or the empty object; every other value, and so every
  negative integer \<open>n\<close>, gives a reference that stores that value. This holds of every
  record the constructor returns, and the constructor does return such a record
  whenever the required fields are well-formed.
\<close>
theorem optional_identifier_truthiness:
  "(\<forall>r. Presence_init parse client (JObj d) = Inr r \<longrightarrow>
       (place r = None \<longleftrightarrow>
          map_of d ''placeId'' = None \<or> (\<exists>v. map_of d ''placeId'' = Some v \<and> v \<in> falsy_values))
     \<and> (\<forall>v. map_of d ''placeId'' = Some v \<and> v \<notin> falsy_values \<longrightarrow>
          place r = Some \<lparr>BasePlace_client = client, BasePlace_id = v\<rparr>)
     \<and> (\<forall>n. n < 0 \<and> map_of d ''placeId'' = Some (JInt n) \<longrightarrow>
          place r = Some \<lparr>BasePlace_client = client, BasePlace_id = JInt n\<rparr>)
     \<and> (root_place r = None \<longleftrightarrow>
          map_of d ''rootPlaceId'' = None
          \<or> (\<exists>v. map_of d ''rootPlaceId'' = Some v \<and> v \<in> falsy_values))
     \<and> (\<forall>v. map_of d ''rootPlaceId'' = Some v \<and> v \<notin> falsy_values \<longrightarrow>
          root_place r = Some \<lparr>BasePlace_client = client, BasePlace_id = v\<rparr>)
     \<and> (\<forall>n. n < 0 \<and> map_of d ''rootPlaceId'' = Some (JInt n) \<longrightarrow>
          root_place r = Some \<lparr>BasePlace_client = client, BasePlace_id = JInt n\<rparr>)
     \<and> (job r = None \<longleftrightarrow>
          map_of d ''gameId'' = None \<or> (\<exists>v. map_of d ''gameId'' = Some v \<and> v \<in> falsy_values))
     \<and> (\<forall>v. map_of d ''gameId'' = Some v \<and> v \<notin> falsy_values \<longrightarrow>
          job r = Some \<lparr>BaseJob_client = client, BaseJob_id = v\<rparr>)
     \<and> (\<forall>n. n < 0 \<and> map_of d ''gameId'' = Some (JInt n) \<longrightarrow>
          job r = Some \<lparr>BaseJob_client = client, BaseJob_id = JInt n\<rparr>)
     \<and> (universe r = None \<longleftrightarrow>
          map_of d ''universeId'' = None
          \<or> (\<exists>v. map_of d ''universeId'' = Some v \<and> v \<in> falsy_values))
     \<and> (\<forall>v. map_of d ''universeId'' = Some v \<and> v \<notin> falsy_values \<longrightarrow>
          universe r = Some \<lparr>BaseUniverse_client = client, BaseUniverse_id = v\<rparr>)
     \<and> (\<forall>n. n < 0 \<and> map_of d ''universeId'' = Some (JInt n) \<longrightarrow>
          universe r = Some \<lparr>BaseUniverse_client = client, BaseUniverse_id = JInt n\<rparr>))
   \<and> ((\<exists>raw pt loc uid lo t.
          map_of d ''userPresenceType'' = Some raw \<and> PresenceType_call raw = Inr pt
        \<and> map_of d ''lastLocation'' = Some loc \<and> map_of d ''userId'' = Some uid
        \<and> map_of d ''lastOnline'' = Some lo \<and> parse lo = Inr t) \<longrightarrow>
       (\<exists>r. Presence_init parse client (JObj d) = Inr r
     \<and> (place r = None \<longleftrightarrow>
          map_of d ''placeId'' = None \<or> (\<exists>v. map_of d ''placeId'' = Some v \<and> v \<in> falsy_values))
     \<and> (\<forall>v. map_of d ''placeId'' = Some v \<and> v \<notin> falsy_values \<longrightarrow>
          place r = Some \<lparr>BasePlace_client = client, BasePlace_id = v\<rparr>)
     \<and> (\<forall>n. n < 0 \<and> map_of d ''placeId'' = Some (JInt n) \<longrightarrow>
          place r = Some \<lparr>BasePlace_client = client, BasePlace_id = JInt n\<rparr>)
     \<and> (root_place r = None \<longleftrightarrow>
          map_of d ''rootPlaceId'' = None
          \<or> (\<exists>v. map_of d ''rootPlaceId'' = Some v \<and> v \<in> falsy_values))
     \<and> (\<forall>v. map_of d ''rootPlaceId'' = Some v \<and> v \<notin> falsy_values \<longrightarrow>
          root_place r = Some \<lparr>BasePlace_client = client, BasePlace_id = v\<rparr>)
     \<and> (\<forall>n. n < 0 \<and> map_of d ''rootPlaceId'' = Some (JInt n) \<longrightarrow>
          root_place r = Some \<lparr>BasePlace_client = client, BasePlace_id = JInt n\<rparr>)
     \<and> (job r = None \<longleftrightarrow>
          map_of d ''gameId'' = None \<or> (\<exists>v. map_of d ''gameId'' = Some v \<and> v \<in> falsy_values))
     \<and> (\<forall>v. map_of d ''gameId'' = Some v \<and> v \<notin> falsy_values \<longrightarrow>
          job r = Some \<lparr>BaseJob_client = client, BaseJob_id = v\<rparr>)
     \<and> (\<forall>n. n < 0 \<and> map_of d ''gameId'' = Some (JInt n) \<longrightarrow>
          job r = Some \<lparr>BaseJob_client = client, BaseJob_id = JInt n\<rparr>)
     \<and> (universe r = None \<longleftrightarrow>
          map_of d ''universeId'' = None
          \<or> (\<exists>v. map_of d ''universeId'' = Some v \<and> v \<in> falsy_values))
     \<and> (\<forall>v. map_of d ''universeId'' = Some v \<and> v \<notin> falsy_values \<longrightarrow>
          universe r = Some \<lparr>BaseUniverse_client = client, BaseUniverse_id = v\<rparr>)
     \<and> (\<forall>n. n < 0 \<and> map_of d ''universeId'' = Some (JInt n) \<longrightarrow>
          universe r = Some \<lparr>BaseUniverse_client = client, BaseUniverse_id = JInt n\<rparr>)))"
  (is "(\<forall>r. ?built r \<longrightarrow> ?P r) \<and> (?ok \<longrightarrow> (\<exists>r. ?built' r \<and> ?P' r))")
proof -
  have P: "?P r" if h: "?built r" for r
  proof -
    note f = Presence_init_Inr_fields [OF h]
    note 1 = optional_reference_falsy [OF f(2)]
    note 2 = optional_reference_falsy [OF f(3)]
    note 3 = optional_reference_falsy [OF f(4)]
    note 4 = optional_reference_falsy [OF f(5)]
    show ?thesis
      by (rule conjI [OF 1(1) conjI [OF 1(2) conjI [OF 1(3) conjI [OF 2(1) conjI [OF 2(2)
            conjI [OF 2(3) conjI [OF 3(1) conjI [OF 3(2) conjI [OF 3(3) conjI [OF 4(1)
            conjI [OF 4(2) 4(3)]]]]]]]]]]])
  qed
  have a: "\<forall>r. ?built r \<longrightarrow> ?P r"
    by (intro allI impI) (erule P)
  have b: "?ok \<longrightarrow> (\<exists>r. ?built r \<and> ?P r)"
  proof
    assume ?ok
    then obtain raw pt loc uid lo t where
      f: "map_of d ''userPresenceType'' = Some raw" "PresenceType_call raw = Inr pt"
         "map_of d ''lastLocation'' = Some loc" "map_of d ''userId'' = Some uid"
         "map_of d ''lastOnline'' = Some lo" "parse lo = Inr t"
      by (elim exE conjE)
    from Presence_init_succeeds [where parse = parse and client = client, OF f]
    obtain r where r: "?built r" ..
    show "\<exists>r. ?built r \<and> ?P r"
      by (rule exI [of _ r]) (rule conjI [OF r P [OF r]])
  qed
  show ?thesis by (rule conjI [OF a b])
qed

theorem optional_identifier_truthiness_witness:
  "\<exists>r. Presence_init example_parse ''client''
          (JObj [(''userPresenceType'', JInt 1),
                 (''lastLocation'', JStr ''Website''),
                 (''placeId'', JBool False),
                 (''rootPlaceId'', JStr ''''),
                 (''gameId'', JInt (- 5)),
                 (''universeId'', JFloat (Finite 0)),
                 (''userId'', JInt 789),
                 (''lastOnline'', JStr ''2023-01-01T00:00:00Z'')]) = Inr r
     \<and> place r = None \<and> root_place r = None
     \<and> job r = Some \<lparr>BaseJob_client = ''client'', BaseJob_id = JInt (- 5)\<rparr>
     \<and> universe r = None"
proof -
  let ?d = "[(''userPresenceType'', JInt 1),
                 (''lastLocation'', JStr ''Website''),
                 (''placeId'', JBool False),
                 (''rootPlaceId'', JStr ''''),
                 (''gameId'', JInt (- 5)),
                 (''universeId'', JFloat (Finite 0)),
                 (''userId'', JInt 789),
                 (''lastOnline'', JStr ''2023-01-01T00:00:00Z'')]"
  have m: "map_of ?d ''placeId'' = Some (JBool False)" "map_of ?d ''rootPlaceId'' = Some (JStr '''')"
    "map_of ?d ''gameId'' = Some (JInt (- 5))" "map_of ?d ''universeId'' = Some (JFloat (Finite 0))"
    by simp_all
  have ok: "\<exists>raw pt loc uid lo t.
          map_of ?d ''userPresenceType'' = Some raw \<and> PresenceType_call raw = Inr pt
        \<and> map_of ?d ''lastLocation'' = Some loc \<and> map_of ?d ''userId'' = Some uid
        \<and> map_of ?d ''lastOnline'' = Some lo \<and> example_parse lo = Inr t"
    by (simp add: example_parse_def PresenceType_call_def PresenceType_members_def)
  note w = optional_identifier_truthiness [of example_parse "''client''" ?d]
  from w [THEN conjunct2, THEN mp, OF ok]
  have "\<exists>r. Presence_init example_parse ''client'' (JObj ?d) = Inr r"
    by (elim exE conjE) (rule exI)
  then obtain r where r: "Presence_init example_parse ''client'' (JObj ?d) = Inr r" ..
  note P = w [THEN conjunct1, THEN spec, THEN mp, OF r]
  note 1 = P [THEN conjunct1]
  note 2 = P [THEN conjunct2, THEN conjunct2, THEN conjunct2, THEN conjunct1]
  note 3 = P [THEN conjunct2, THEN conjunct2, THEN conjunct2, THEN conjunct2, THEN conjunct2,
      THEN conjunct2, THEN conjunct2, THEN conjunct2, THEN conjunct1]
  note 4 = P [THEN conjunct2, THEN conjunct2, THEN conjunct2, THEN conjunct2, THEN conjunct2,
      THEN conjunct2, THEN conjunct2, THEN conjunct2, THEN conjunct2, THEN conjunct1]
  from 1 have p: "place r = None" unfolding m by simp
  from 2 have rp: "root_place r = None" unfolding m by simp
  from 3 m(3) have j: "job r = Some \<lparr>BaseJob_client = ''client'', BaseJob_id = JInt (- 5)\<rparr>"
    by simp
  from 4 have u: "universe r = None" unfolding m by simp
  from r p rp j u show ?thesis by blast
qed

section \<open>The shared context\<close>

lemma Presence_init_Inr_JObj:
  assumes "Presence_init parse client data = Inr r"
  shows "\<exists>d. data = JObj d"
proof (rule ccontr)
  assume "\<not> (\<exists>d. data = JObj d)"
  then have "Presence_init parse client data = Inl TypeError"
    by (intro Presence_init_not_JObj) simp
  with assms show False by simp
qed

lemma Presence_init_context_JObj:
  assumes h: "Presence_init parse client (JObj d) = Inr r"
  shows "Presence_client r = client
     \<and> (\<forall>p. place r = Some p \<longrightarrow> BasePlace_client p = client)
     \<and> (\<forall>p. root_place r = Some p \<longrightarrow> BasePlace_client p = client)
     \<and> (\<forall>j. job r = Some j \<longrightarrow> BaseJob_client j = client)
     \<and> (\<forall>u. universe r = Some u \<longrightarrow> BaseUniverse_client u = client)
     \<and> BaseUser_client (user r) = client"
proof -
  note f = Presence_init_Inr_fields [OF h]
  have 1: "\<forall>p. place r = Some p \<longrightarrow> BasePlace_client p = client"
    by (cases "map_of d ''placeId''") (auto simp: f(2))
  have 2: "\<forall>p. root_place r = Some p \<longrightarrow> BasePlace_client p = client"
    by (cases "map_of d ''rootPlaceId''") (auto simp: f(3))
  have 3: "\<forall>j. job r = Some j \<longrightarrow> BaseJob_client j = client"
    by (cases "map_of d ''gameId''") (auto simp: f(4))
  have 4: "\<forall>u. universe r = Some u \<longrightarrow> BaseUniverse_client u = client"
    by (cases "map_of d ''universeId''") (auto simp: f(5))
  have 5: "BaseUser_client (user r) = client" using f(6) by auto
  show ?thesis
    by (rule conjI [OF f(1) conjI [OF 1 conjI [OF 2 conjI [OF 3 conjI [OF 4 5]]]]])
qed

lemma Presence_init_context:
  assumes h: "Presence_init parse client data = Inr r"
  shows "Presence_client r = client
     \<and> (\<forall>p. place r = Some p \<longrightarrow> BasePlace_client p = client)
     \<and> (\<forall>p. root_place r = Some p \<longrightarrow> BasePlace_client p = client)
     \<and> (\<forall>j. job r = Some j \<longrightarrow> BaseJob_client j = client)
     \<and> (\<forall>u. universe r = Some u \<longrightarrow> BaseUniverse_client u = client)
     \<and> BaseUser_client (user r) = client"
proof -
  from Presence_init_Inr_JObj [OF h] obtain d where d: "data = JObj d" ..
  from h have "Presence_init parse client (JObj d) = Inr r" by (simp only: d)
  then show ?thesis by (rule Presence_init_context_JObj)
qed

lemma Shout_init_Inr_fields:
  assumes "Shout_init PU parse shared data = Inr s"
  shows "Shout_shared s = shared"
    and "getitem data ''body'' = Inr (body s)"
    and "\<exists>c. getitem data ''created'' = Inr c \<and> parse c = Inr (created s)"
    and "\<exists>u. getitem data ''updated'' = Inr u \<and> parse u = Inr (updated s)"
    and "\<exists>p. getitem data ''poster'' = Inr p \<and> PU shared p = Inr (poster s)"
proof -
  from assms obtain b c_raw c u_raw u p_raw p where
    f: "getitem data ''body'' = Inr b" "getitem data ''created'' = Inr c_raw" "parse c_raw = Inr c"
       "getitem data ''updated'' = Inr u_raw" "parse u_raw = Inr u"
       "getitem data ''poster'' = Inr p_raw" "PU shared p_raw = Inr p"
    and s: "s = \<lparr>Shout_shared = shared, body = b, created = c, updated = u, poster = p\<rparr>"
    unfolding Shout_init_def bind_eq_Inr_iff by blast
  show "Shout_shared s = shared" by (simp add: s)
  show "getitem data ''body'' = Inr (body s)" by (simp add: s f)
  show "\<exists>c. getitem data ''created'' = Inr c \<and> parse c = Inr (created s)" by (simp add: s f)
  show "\<exists>u. getitem data ''updated'' = Inr u \<and> parse u = Inr (updated s)" by (simp add: s f)
  show "\<exists>p. getitem data ''poster'' = Inr p \<and> PU shared p = Inr (poster s)" by (simp add: s f)
qed

lemma Shout_init_context:
  assumes h: "Shout_init PU parse shared data = Inr s"
  shows "Shout_shared s = shared
     \<and> (\<exists>p. getitem data ''poster'' = Inr p \<and> PU shared p = Inr (poster s))"
  by (rule conjI [OF Shout_init_Inr_fields(1) [OF h] Shout_init_Inr_fields(5) [OF h]])

lemma Shout_init_PartialUser_context:
  assumes h: "Shout_init PartialUser_init parse shared data = Inr s"
  shows "Shout_shared s = shared \<and> PartialUser_shared (poster s) = shared"
proof -
  from Shout_init_Inr_fields(5) [OF h] obtain p where "PartialUser_init shared p = Inr (poster s)"
    by blast
  then have "\<lparr>PartialUser_shared = shared, PartialUser_data = p\<rparr> = poster s"
    by (simp add: PartialUser_init_def)
  from this [symmetric] have "PartialUser_shared (poster s) = shared" by simp
  with Shout_init_Inr_fields(1) [OF h] show ?thesis by simp
qed

text \<open>
  C9. Every constructed object stores exactly the context passed to its constructor,
  and each record passes that same context on, unchanged, to every reference it
  builds: a presence record stores its client, and so do its place, root place, job,
  universe and user references; a shout stores its shared object and calls the
  partial-user constructor with that same object, so that a partial-user reference, as
  the spec describes it, stores it too.
\<close>

theorem context_stored_and_injected:
  "(\<forall>r. Presence_init parse client data = Inr r \<longrightarrow>
       Presence_client r = client
     \<and> (\<forall>p. place r = Some p \<longrightarrow> BasePlace_client p = client)
     \<and> (\<forall>p. root_place r = Some p \<longrightarrow> BasePlace_client p = client)
     \<and> (\<forall>j. job r = Some j \<longrightarrow> BaseJob_client j = client)
     \<and> (\<forall>u. universe r = Some u \<longrightarrow> BaseUniverse_client u = client)
     \<and> BaseUser_client (user r) = client)
   \<and> (\<forall>s. Shout_init PU parse' shared sdata = Inr s \<longrightarrow>
       Shout_shared s = shared
     \<and> (\<exists>p. getitem sdata ''poster'' = Inr p \<and> PU shared p = Inr (poster s)))
   \<and> (\<forall>s. Shout_init PartialUser_init parse'' shared sdata = Inr s \<longrightarrow>
       Shout_shared s = shared \<and> PartialUser_shared (poster s) = shared)"
  (is "?A \<and> ?B \<and> ?C")
proof -
  have a: ?A by (intro allI impI) (erule Presence_init_context)
  have b: ?B by (intro allI impI) (erule Shout_init_context)
  have c: ?C by (intro allI impI) (erule Shout_init_PartialUser_context)
  show ?thesis by (rule conjI [OF a conjI [OF b c]])
qed

theorem context_stored_and_injected_witness:
  "(\<exists>r. Presence_init example_parse ''client'' (JObj example_presence) = Inr r
      \<and> Presence_client r = ''client''
      \<and> map_option BasePlace_client (place r) = Some ''client''
      \<and> BaseUser_client (user r) = ''client'')
   \<and> (\<exists>s. Shout_init PartialUser_init example_parse ''shared'' (JObj example_shout) = Inr s
      \<and> Shout_shared s = ''shared'' \<and> PartialUser_shared (poster s) = ''shared'')"
proof -
  obtain r where h: "Presence_init example_parse ''client'' (JObj example_presence) = Inr r"
    using example_presence_init by blast
  have "\<exists>p. place r = Some p"
    using Presence_init_Inr_fields(2) [OF h] by (simp add: example_presence_def)
  then obtain p where p: "place r = Some p" ..
  have "\<exists>s. Shout_init PartialUser_init example_parse ''shared'' (JObj example_shout) = Inr s"
    by (simp add: Shout_init_def example_shout_def example_parse_def PartialUser_init_def)
  then obtain s where g: "Shout_init PartialUser_init example_parse ''shared'' (JObj example_shout) = Inr s" ..
  note w = context_stored_and_injected [of example_parse "''client''" "JObj example_presence"
      PartialUser_init example_parse "''shared''" "JObj example_shout" example_parse]
  from w h have 1: "Presence_client r = ''client''" "BaseUser_client (user r) = ''client''"
    "\<forall>p. place r = Some p \<longrightarrow> BasePlace_client p = ''client''" by blast+
  from 1(3) p have 2: "map_option BasePlace_client (place r) = Some ''client''" by simp
  from w g have 3: "Shout_shared s = ''shared''" "PartialUser_shared (poster s) = ''shared''" by blast+
  from h 1 2 have "\<exists>r. Presence_init example_parse ''client'' (JObj example_presence) = Inr r
      \<and> Presence_client r = ''client''
      \<and> map_option BasePlace_client (place r) = Some ''client''
      \<and> BaseUser_client (user r) = ''client''" by blast
  moreover from g 3 have "\<exists>s. Shout_init PartialUser_init example_parse ''shared'' (JObj example_shout) = Inr s
      \<and> Shout_shared s = ''shared'' \<and> PartialUser_shared (poster s) = ''shared''" by blast
  ultimately show ?thesis by (rule conjI)
qed

section \<open>A presence payload without a user identifier\<close>

lemma Presence_init_without_userId:
  assumes "map_of d ''userId'' = None"
  shows "Presence_init parse client (JObj d) =
        (case map_of d ''userPresenceType'' of
           None \<Rightarrow> Inl (KeyError ''userPresenceType'')
         | Some raw \<Rightarrow>
            (case PresenceType_call raw of
               Inl e \<Rightarrow> Inl e
             | Inr pt \<Rightarrow>
                (case map_of d ''lastLocation'' of
                   None \<Rightarrow> Inl (KeyError ''lastLocation'')
                 | Some loc \<Rightarrow> Inl (KeyError ''userId''))))"
  by (simp add: Presence_init_JObj assms split: option.splits sum.splits)

text \<open>
  C3 (as amended). For every presence payload in which the \<open>userId\<close> key is absent,
  constructing a presence record fails and no record (so none with a null user) is
  produced. The error is the \<open>KeyError\<close> naming \<open>userId\<close> whenever the statements that
  run before the lookup succeed, that is when \<open>userPresenceType\<close> is present and a valid
  presence type and \<open>lastLocation\<close> is present; otherwise the error of the first of
  those earlier statements is the one raised. As stated for every payload the claim
  fails: a payload without \<open>userId\<close> whose presence type is 7 ends in the enum's
  \<open>ValueError\<close>.
\<close>

theorem missing_userId_fails:
  assumes "map_of d ''userId'' = None"
  shows "(\<forall>r. Presence_init parse client (JObj d) \<noteq> Inr r)
       \<and> Presence_init parse client (JObj d) =
          (case map_of d ''userPresenceType'' of
             None \<Rightarrow> Inl (KeyError ''userPresenceType'')
           | Some raw \<Rightarrow>
              (case PresenceType_call raw of
                 Inl e \<Rightarrow> Inl e
               | Inr pt \<Rightarrow>
                  (case map_of d ''lastLocation'' of
                     None \<Rightarrow> Inl (KeyError ''lastLocation'')
                   | Some loc \<Rightarrow> Inl (KeyError ''userId''))))
       \<and> (\<forall>raw pt loc. map_of d ''userPresenceType'' = Some raw \<and> PresenceType_call raw = Inr pt
             \<and> map_of d ''lastLocation'' = Some loc \<longrightarrow>
            Presence_init parse client (JObj d) = Inl (KeyError ''userId''))"
proof -
  note e = Presence_init_without_userId [OF assms, of parse client]
  have 1: "\<forall>r. Presence_init parse client (JObj d) \<noteq> Inr r"
  proof (rule allI, rule notI)
    fix r assume "Presence_init parse client (JObj d) = Inr r"
    from Presence_init_Inr_fields(6) [OF this] assms show False by simp
  qed
  have 3: "\<forall>raw pt loc. map_of d ''userPresenceType'' = Some raw \<and> PresenceType_call raw = Inr pt
             \<and> map_of d ''lastLocation'' = Some loc \<longrightarrow>
            Presence_init parse client (JObj d) = Inl (KeyError ''userId'')"
    by (simp add: e)
  show ?thesis by (rule conjI [OF 1 conjI [OF e 3]])
qed

theorem missing_userId_fails_witness:
  "map_of [(''userPresenceType'', JInt 2),
           (''lastLocation'', JStr ''Baseplate''),
           (''placeId'', JInt 123),
           (''lastOnline'', JStr ''2023-01-01T00:00:00Z'')] ''userId'' = None
   \<and> Presence_init example_parse ''client''
        (JObj [(''userPresenceType'', JInt 2),
               (''lastLocation'', JStr ''Baseplate''),
               (''placeId'', JInt 123),
               (''lastOnline'', JStr ''2023-01-01T00:00:00Z'')]) = Inl (KeyError ''userId'')"
proof -
  let ?d = "[(''userPresenceType'', JInt 2),
           (''lastLocation'', JStr ''Baseplate''),
           (''placeId'', JInt 123),
           (''lastOnline'', JStr ''2023-01-01T00:00:00Z'')]"
  have h: "map_of ?d ''userId'' = None" by simp
  have p: "PresenceType_call (JInt 2) = Inr in_game"
    by (simp add: PresenceType_call_def PresenceType_members_def)
  from missing_userId_fails [OF h, of example_parse "''client''"] p
  have "Presence_init example_parse ''client'' (JObj ?d) = Inl (KeyError ''userId'')"
    by simp
  with h show ?thesis by (rule conjI)
qed

theorem missing_userId_other_error_first:
  "map_of [(''userPresenceType'', JInt 7),
           (''lastLocation'', JStr ''Baseplate''),
           (''lastOnline'', JStr ''2023-01-01T00:00:00Z'')] ''userId'' = None
   \<and> Presence_init example_parse ''client''
        (JObj [(''userPresenceType'', JInt 7),
               (''lastLocation'', JStr ''Baseplate''),
               (''lastOnline'', JStr ''2023-01-01T00:00:00Z'')]) = Inl (ValueError (JInt 7))
   \<and> Presence_init example_parse ''client''
        (JObj [(''userPresenceType'', JInt 7),
               (''lastLocation'', JStr ''Baseplate''),
               (''lastOnline'', JStr ''2023-01-01T00:00:00Z'')]) \<noteq> Inl (KeyError ''userId'')"
  by (simp add: Presence_init_JObj PresenceType_call_def PresenceType_members_def)

section \<open>The presence type is matched exactly\<close>

lemma PresenceType_call_JInt:
  "PresenceType_call (JInt v) =
     (if v = 0 then Inr offline else if v = 1 then Inr online
      else if v = 2 then Inr in_game else if v = 3 then Inr in_studio
      else Inl (ValueError (JInt v)))"
  by (simp add: PresenceType_call_def PresenceType_members_def)

lemma PresenceType_call_JInt_value:
  assumes "PresenceType_call (JInt v) = Inr m"
  shows "PresenceType_value m = v" and "v \<in> {0, 1, 2, 3}"
  using assms by (auto simp: PresenceType_call_JInt split: if_splits)

lemma PresenceType_call_JInt_in_range:
  assumes "v \<in> {0, 1, 2, 3}"
  shows "\<exists>m. PresenceType_call (JInt v) = Inr m \<and> PresenceType_value m = v"
  using assms by (auto simp: PresenceType_call_JInt)

lemma PresenceType_call_JInt_out_of_range:
  assumes "v \<notin> {0, 1, 2, 3}"
  shows "PresenceType_call (JInt v) = Inl (ValueError (JInt v))"
  using assms by (simp add: PresenceType_call_JInt)

text \<open>
  C2. For every integer \<open>v\<close>: the enum call on \<open>v\<close> yields the member whose value is
  \<open>v\<close> (offline 0, online 1, in_game 2, in_studio 3) when \<open>v\<close> is one of 0, 1, 2, 3, and
  raises \<open>ValueError\<close> for every other \<open>v\<close>, with no clamping and no default. For a
  payload whose \<open>userPresenceType\<close> is \<open>v\<close>: outside 0..3 the construction of the
  presence fails with that \<open>ValueError\<close>, whatever else the payload holds; a record is
  only ever built for \<open>v\<close> in 0..3 and then carries the member of value \<open>v\<close>; and
  for \<open>v\<close> in 0..3 the record is built whenever the other required fields are there
  and the timestamp parses.
\<close>

theorem presence_type_by_exact_integer:
  "(v \<in> {0, 1, 2, 3} \<longrightarrow> (\<exists>m. PresenceType_call (JInt v) = Inr m \<and> PresenceType_value m = v))
   \<and> (v \<notin> {0, 1, 2, 3} \<longrightarrow> PresenceType_call (JInt v) = Inl (ValueError (JInt v)))
   \<and> (map_of d ''userPresenceType'' = Some (JInt v) \<longrightarrow>
        (v \<notin> {0, 1, 2, 3} \<longrightarrow> Presence_init parse client (JObj d) = Inl (ValueError (JInt v)))
      \<and> (\<forall>r. Presence_init parse client (JObj d) = Inr r \<longrightarrow>
            v \<in> {0, 1, 2, 3} \<and> PresenceType_value (user_presence_type r) = v)
      \<and> (v \<in> {0, 1, 2, 3} \<and> (\<exists>loc. map_of d ''lastLocation'' = Some loc)
            \<and> (\<exists>uid. map_of d ''userId'' = Some uid)
            \<and> (\<exists>lo t. map_of d ''lastOnline'' = Some lo \<and> parse lo = Inr t) \<longrightarrow>
          (\<exists>r. Presence_init parse client (JObj d) = Inr r
             \<and> PresenceType_value (user_presence_type r) = v)))"
  (is "?A \<and> ?B \<and> (?H \<longrightarrow> ?C \<and> ?D \<and> ?E)")
proof -
  have a: ?A using PresenceType_call_JInt_in_range by blast
  have b: ?B using PresenceType_call_JInt_out_of_range by blast
  have cde: "?C \<and> ?D \<and> ?E" if h: ?H
  proof -
    have c: ?C
    proof
      assume "v \<notin> {0, 1, 2, 3}"
      then have "PresenceType_call (JInt v) = Inl (ValueError (JInt v))"
        by (rule PresenceType_call_JInt_out_of_range)
      then show "Presence_init parse client (JObj d) = Inl (ValueError (JInt v))"
        by (simp add: Presence_init_JObj h)
    qed
    have d: ?D
    proof (rule allI, rule impI)
      fix r assume r: "Presence_init parse client (JObj d) = Inr r"
      from Presence_init_Inr_fields(7) [OF r] h
      have "PresenceType_call (JInt v) = Inr (user_presence_type r)" by simp
      from PresenceType_call_JInt_value [OF this]
      show "v \<in> {0, 1, 2, 3} \<and> PresenceType_value (user_presence_type r) = v" by simp
    qed
    have e: ?E
    proof
      assume g: "v \<in> {0, 1, 2, 3} \<and> (\<exists>loc. map_of d ''lastLocation'' = Some loc)
            \<and> (\<exists>uid. map_of d ''userId'' = Some uid)
            \<and> (\<exists>lo t. map_of d ''lastOnline'' = Some lo \<and> parse lo = Inr t)"
      then obtain m loc uid lo t where
        m: "PresenceType_call (JInt v) = Inr m" "PresenceType_value m = v"
        and f: "map_of d ''lastLocation'' = Some loc" "map_of d ''userId'' = Some uid"
          "map_of d ''lastOnline'' = Some lo" "parse lo = Inr t"
        using PresenceType_call_JInt_in_range [of v] by blast
      show "\<exists>r. Presence_init parse client (JObj d) = Inr r
             \<and> PresenceType_value (user_presence_type r) = v"
        by (simp add: Presence_init_JObj h m f)
    qed
    show ?thesis by (rule conjI [OF c conjI [OF d e]])
  qed
  then have "?H \<longrightarrow> ?C \<and> ?D \<and> ?E" by (rule impI)
  with a b show ?thesis by (intro conjI)
qed

theorem presence_type_by_exact_integer_witness:
  "(\<exists>r. Presence_init example_parse ''client'' (JObj example_presence) = Inr r
       \<and> user_presence_type r = in_game)
   \<and> PresenceType_call (JInt 0) = Inr offline \<and> PresenceType_call (JInt 1) = Inr online
   \<and> PresenceType_call (JInt 2) = Inr in_game \<and> PresenceType_call (JInt 3) = Inr in_studio
   \<and> PresenceType_call (JInt 4) = Inl (ValueError (JInt 4))
   \<and> PresenceType_call (JInt (- 1)) = Inl (ValueError (JInt (- 1)))
   \<and> Presence_init example_parse ''client''
        (JObj [(''userPresenceType'', JInt 7),
               (''lastLocation'', JStr ''Baseplate''),
               (''userId'', JInt 789),
               (''lastOnline'', JStr ''2023-01-01T00:00:00Z'')]) = Inl (ValueError (JInt 7))"
proof -
  have m: "map_of example_presence ''userPresenceType'' = Some (JInt 2)"
    "map_of example_presence ''lastLocation'' = Some (JStr ''Baseplate'')"
    "map_of example_presence ''userId'' = Some (JInt 789)"
    "map_of example_presence ''lastOnline'' = Some (JStr ''2023-01-01T00:00:00Z'')"
    "example_parse (JStr ''2023-01-01T00:00:00Z'') = Inr ''2023-01-01T00:00:00Z''"
    by (simp_all add: example_presence_def example_parse_def)
  from presence_type_by_exact_integer [of 2 example_presence example_parse "''client''"] m
  obtain r where r: "Presence_init example_parse ''client'' (JObj example_presence) = Inr r"
    "PresenceType_value (user_presence_type r) = 2"
    by auto
  from r(2) have "user_presence_type r = in_game"
    by (cases "user_presence_type r") simp_all
  with r(1) have 1: "\<exists>r. Presence_init example_parse ''client'' (JObj example_presence) = Inr r
       \<and> user_presence_type r = in_game" by blast
  have 2: "PresenceType_call (JInt 0) = Inr offline" "PresenceType_call (JInt 1) = Inr online"
    "PresenceType_call (JInt 2) = Inr in_game" "PresenceType_call (JInt 3) = Inr in_studio"
    by (simp_all add: PresenceType_call_JInt)
  have 3: "PresenceType_call (JInt 4) = Inl (ValueError (JInt 4))"
    using presence_type_by_exact_integer [of 4 "[]" example_parse "''client''"] by simp
  have 4: "PresenceType_call (JInt (- 1)) = Inl (ValueError (JInt (- 1)))"
    using presence_type_by_exact_integer [of "- 1" "[]" example_parse "''client''"] by simp
  have 5: "Presence_init example_parse ''client''
        (JObj [(''userPresenceType'', JInt 7),
               (''lastLocation'', JStr ''Baseplate''),
               (''userId'', JInt 789),
               (''lastOnline'', JStr ''2023-01-01T00:00:00Z'')]) = Inl (ValueError (JInt 7))"
    using presence_type_by_exact_integer [of 7 "[(''userPresenceType'', JInt 7),
               (''lastLocation'', JStr ''Baseplate''),
               (''userId'', JInt 789),
               (''lastOnline'', JStr ''2023-01-01T00:00:00Z'')]" example_parse "''client''"]
    by simp
  from 1 2 3 4 5 show ?thesis by (intro conjI)
qed

section \<open>Fetching presences\<close>

lemma snd_get_user_presences:
  "snd (get_user_presences post get_url parse self users) =
     bind (post (PresenceProvider_client self)
             \<lparr>request_method = ''POST'', request_url = get_url (PresenceProvider_client self) ''presence'' ''v1/presence/users'',
              request_json = JObj [(''userIds'', JArr (map JInt (map py_int users)))]\<rparr>)
       (\<lambda>presences_response.
     bind (getitem presences_response ''userPresences'') (\<lambda>presences_data.
     bind (py_iter presences_data) (\<lambda>items.
       comprehension (Presence_init parse (PresenceProvider_client self)) items)))"
  by (simp add: get_user_presences_def Let_def)

lemma comprehension_list_all2:
  "comprehension f xs = Inr ys \<longleftrightarrow> list_all2 (\<lambda>x y. f x = Inr y) xs ys"
proof (induction xs arbitrary: ys)
  case Nil
  show ?case by auto
next
  case (Cons x xs)
  show ?case
  proof (cases ys)
    case Nil
    then show ?thesis by (simp add: bind_eq_Inr_iff)
  next
    case (Cons y ys')
    then show ?thesis by (auto simp: bind_eq_Inr_iff Cons.IH)
  qed
qed

lemma comprehension_eq_Inr_iff:
  "comprehension f xs = Inr ys \<longleftrightarrow>
     length ys = length xs \<and> (\<forall>i<length xs. f (xs ! i) = Inr (ys ! i))"
  unfolding comprehension_list_all2 list_all2_conv_all_nth by auto

lemma comprehension_succeeds:
  "(\<forall>x\<in>set xs. \<exists>y. f x = Inr y) \<Longrightarrow> \<exists>ys. comprehension f xs = Inr ys"
proof (induction xs)
  case Nil
  show ?case by simp
next
  case (Cons x xs)
  then obtain y ys where "f x = Inr y" "comprehension f xs = Inr ys" by auto
  then show ?case by simp
qed

lemma comprehension_fails:
  assumes "i < length xs" and "f (xs ! i) = Inl e"
  shows "\<exists>e'. comprehension f xs = Inl e'"
proof (cases "comprehension f xs")
  case (Inl e')
  then show ?thesis by blast
next
  case (Inr ys)
  then have "f (xs ! i) = Inr (ys ! i)"
    using assms(1) by (simp add: comprehension_eq_Inr_iff)
  with assms(2) show ?thesis by simp
qed

text \<open>
  C4. When the response's \<open>userPresences\<close> is an array of entries \<open>e1 .. en\<close>,
  \<open>get_user_presences\<close> returns a list \<open>rs\<close> exactly when \<open>rs\<close> has \<open>n\<close> elements and
  its \<open>i\<close>-th element is the record built from \<open>ei\<close>: the order of the response is kept,
  nothing is sorted and no entry is skipped. It returns such a list whenever every
  entry maps to a record, and it fails as a whole when one entry does not.
\<close>

theorem presences_in_response_order:
  fixes self :: "'c PresenceProvider"
    and get_url :: "'c \<Rightarrow> string \<Rightarrow> string \<Rightarrow> string"
    and users :: "'c UserOrUserId list"
  defines "c \<equiv> PresenceProvider_client self"
  defines "req \<equiv> \<lparr>request_method = ''POST'', request_url = get_url c ''presence'' ''v1/presence/users'',
                   request_json = JObj [(''userIds'', JArr (map JInt (map py_int users)))]\<rparr>"
  assumes "post c req = Inr (JObj resp)"
    and "map_of resp ''userPresences'' = Some (JArr es)"
  shows "(snd (get_user_presences post get_url parse self users) = Inr rs \<longleftrightarrow>
            length rs = length es \<and> (\<forall>i<length es. Presence_init parse c (es ! i) = Inr (rs ! i)))
       \<and> ((\<forall>i<length es. \<exists>r. Presence_init parse c (es ! i) = Inr r) \<longrightarrow>
            (\<exists>rs'. snd (get_user_presences post get_url parse self users) = Inr rs'
               \<and> length rs' = length es))
       \<and> ((\<exists>i<length es. \<exists>e. Presence_init parse c (es ! i) = Inl e) \<longrightarrow>
            (\<exists>e. snd (get_user_presences post get_url parse self users) = Inl e))"
proof -
  have s: "snd (get_user_presences post get_url parse self users) =
             comprehension (Presence_init parse c) es"
    using assms(3,4) unfolding snd_get_user_presences c_def req_def by simp
  have 1: "snd (get_user_presences post get_url parse self users) = Inr rs \<longleftrightarrow>
            length rs = length es \<and> (\<forall>i<length es. Presence_init parse c (es ! i) = Inr (rs ! i))"
    unfolding s by (rule comprehension_eq_Inr_iff)
  have 2: "(\<forall>i<length es. \<exists>r. Presence_init parse c (es ! i) = Inr r) \<longrightarrow>
            (\<exists>rs'. snd (get_user_presences post get_url parse self users) = Inr rs'
               \<and> length rs' = length es)"
  proof
    assume "\<forall>i<length es. \<exists>r. Presence_init parse c (es ! i) = Inr r"
    then have "\<forall>x\<in>set es. \<exists>y. Presence_init parse c x = Inr y"
      by (auto simp: in_set_conv_nth)
    from comprehension_succeeds [OF this] obtain ys
      where ys: "comprehension (Presence_init parse c) es = Inr ys" ..
    then have "length ys = length es" by (simp add: comprehension_eq_Inr_iff)
    with ys show "\<exists>rs'. snd (get_user_presences post get_url parse self users) = Inr rs'
               \<and> length rs' = length es"
      unfolding s by blast
  qed
  have 3: "(\<exists>i<length es. \<exists>e. Presence_init parse c (es ! i) = Inl e) \<longrightarrow>
            (\<exists>e. snd (get_user_presences post get_url parse self users) = Inl e)"
    unfolding s using comprehension_fails by blast
  show ?thesis by (rule conjI [OF 1 conjI [OF 2 3]])
qed

theorem presences_in_response_order_witness:
  "\<exists>r1 r2. snd (get_user_presences
        (reply_with (JObj [(''userPresences'',
           JArr [JObj example_presence,
                 JObj [(''userPresenceType'', JInt 0),
                       (''lastLocation'', JStr ''Website''),
                       (''userId'', JInt 5),
                       (''lastOnline'', JStr ''2023-01-02T00:00:00Z'')]])]))
        example_get_url example_parse \<lparr>PresenceProvider_client = ''client''\<rparr>
        [UserId 5, UserId 789]) = Inr [r1, r2]
     \<and> BaseUser_id (user r1) = JInt 789 \<and> BaseUser_id (user r2) = JInt 5"
proof -
  let ?e2 = "[(''userPresenceType'', JInt 0),
                       (''lastLocation'', JStr ''Website''),
                       (''userId'', JInt 5),
                       (''lastOnline'', JStr ''2023-01-02T00:00:00Z'')]"
  let ?es = "[JObj example_presence, JObj ?e2]"
  let ?resp = "[(''userPresences'', JArr ?es)]"
  let ?self = "\<lparr>PresenceProvider_client = ''client''\<rparr>"
  let ?users = "[UserId 5, UserId 789] :: string UserOrUserId list"
  obtain r1 where r1: "Presence_init example_parse ''client'' (JObj example_presence) = Inr r1"
    using example_presence_init by blast
  have "\<exists>r. Presence_init example_parse ''client'' (JObj ?e2) = Inr r"
    by (simp add: Presence_init_JObj example_parse_def PresenceType_call_def PresenceType_members_def)
  then obtain r2 where r2: "Presence_init example_parse ''client'' (JObj ?e2) = Inr r2" ..
  have p: "reply_with (JObj ?resp) (PresenceProvider_client ?self)
             \<lparr>request_method = ''POST'', request_url = example_get_url (PresenceProvider_client ?self) ''presence'' ''v1/presence/users'',
              request_json = JObj [(''userIds'', JArr (map JInt (map py_int ?users)))]\<rparr>
           = Inr (JObj ?resp)"
    by (simp add: reply_with_def)
  have m: "map_of ?resp ''userPresences'' = Some (JArr ?es)" by simp
  have i: "\<forall>i<length ?es. Presence_init example_parse (PresenceProvider_client ?self) (?es ! i) = Inr ([r1, r2] ! i)"
    using r1 r2 by (simp add: less_Suc_eq nth_Cons')
  from presences_in_response_order [where post = "reply_with (JObj ?resp)" and get_url = example_get_url
      and self = ?self and users = ?users and resp = ?resp and es = ?es and parse = example_parse
      and rs = "[r1, r2]", OF p m] i
  have g: "snd (get_user_presences (reply_with (JObj ?resp)) example_get_url example_parse ?self ?users)
           = Inr [r1, r2]" by simp
  from Presence_init_Inr_fields(6) [OF r1] have u1: "BaseUser_id (user r1) = JInt 789"
    by (auto simp: example_presence_def)
  from Presence_init_Inr_fields(6) [OF r2] have u2: "BaseUser_id (user r2) = JInt 5"
    by auto
  from g u1 u2 show ?thesis by blast
qed

section \<open>The request for presences\<close>

text \<open>
  C5. For every list of users, raw integer ids and user handles alike and the empty
  list included, \<open>get_user_presences\<close> issues exactly one request, a POST to the
  presence endpoint whose JSON body is \<open>{"userIds": l}\<close> with \<open>l\<close> the users converted
  to integers in the order given. That request is the one handed to the transport: the
  result of the call is computed from the transport's answer to it and to nothing
  else, so that a transport error for it is the error of the call, a response to it
  is what gets mapped, and two transports that agree on it give the same result. The
  empty list is not rejected: the one request carries \<open>{"userIds": []}\<close> and goes to
  the transport like any other, and an empty array in the response is returned as the
  empty list.
\<close>
theorem one_request_with_all_user_ids:
  fixes self :: "'c PresenceProvider"
    and get_url :: "'c \<Rightarrow> string \<Rightarrow> string \<Rightarrow> string"
    and users :: "'c UserOrUserId list"
  defines "c \<equiv> PresenceProvider_client self"
  defines "req \<equiv> \<lparr>request_method = ''POST'',
                   request_url = get_url c ''presence'' ''v1/presence/users'',
                   request_json = JObj [(''userIds'', JArr (map JInt (map py_int users)))]\<rparr>"
  defines "req0 \<equiv> \<lparr>request_method = ''POST'',
                    request_url = get_url c ''presence'' ''v1/presence/users'',
                    request_json = JObj [(''userIds'', JArr [])]\<rparr>"
  shows "fst (get_user_presences post get_url parse self users) = [req]
   \<and> length (fst (get_user_presences post get_url parse self users)) = 1
   \<and> snd (get_user_presences post get_url parse self users) =
       bind (post c req) (\<lambda>response.
       bind (getitem response ''userPresences'') (\<lambda>presences.
       bind (py_iter presences) (comprehension (Presence_init parse c))))
   \<and> (\<forall>e. post c req = Inl e \<longrightarrow>
         snd (get_user_presences post get_url parse self users) = Inl e)
   \<and> (\<forall>es. post c req = Inr (JObj [(''userPresences'', JArr es)]) \<longrightarrow>
         snd (get_user_presences post get_url parse self users) =
           comprehension (Presence_init parse c) es)
   \<and> (\<forall>post'. post' c req = post c req \<longrightarrow>
         snd (get_user_presences post' get_url parse self users) =
         snd (get_user_presences post get_url parse self users))
   \<and> length (map py_int users) = length users
   \<and> (\<forall>i<length users. map py_int users ! i = py_int (users ! i))
   \<and> py_int (UserId n) = n \<and> py_int (UserObj u) = BaseUser_id u
   \<and> fst (get_user_presences post get_url parse self []) = [req0]
   \<and> (post c req0 = Inr (JObj [(''userPresences'', JArr [])]) \<longrightarrow>
       snd (get_user_presences post get_url parse self []) = Inr [])
   \<and> (\<forall>e. post c req0 = Inl e \<longrightarrow>
         snd (get_user_presences post get_url parse self []) = Inl e)"
proof -
  have 1: "fst (get_user_presences post get_url parse self users) = [req]"
    by (simp add: get_user_presences_def Let_def req_def c_def)
  have 2: "length (fst (get_user_presences post get_url parse self users)) = 1"
    by (simp add: 1)
  have s: "snd (get_user_presences p get_url parse self users) =
       bind (p c req) (\<lambda>response.
       bind (getitem response ''userPresences'') (\<lambda>presences.
       bind (py_iter presences) (comprehension (Presence_init parse c))))" for p
    unfolding snd_get_user_presences req_def c_def ..
  have 4: "\<forall>e. post c req = Inl e \<longrightarrow>
         snd (get_user_presences post get_url parse self users) = Inl e"
    by (simp add: s)
  have 5: "\<forall>es. post c req = Inr (JObj [(''userPresences'', JArr es)]) \<longrightarrow>
         snd (get_user_presences post get_url parse self users) =
           comprehension (Presence_init parse c) es"
    by (simp add: s)
  have 6: "\<forall>post'. post' c req = post c req \<longrightarrow>
         snd (get_user_presences post' get_url parse self users) =
         snd (get_user_presences post get_url parse self users)"
    by (simp add: s)
  have 7: "length (map py_int users) = length users"
    "\<forall>i<length users. map py_int users ! i = py_int (users ! i)"
    "py_int (UserId n) = n" "py_int (UserObj u) = BaseUser_id u"
    by simp_all
  have 8: "fst (get_user_presences post get_url parse self []) = [req0]"
    by (simp add: get_user_presences_def Let_def req0_def c_def)
  have s0: "snd (get_user_presences post get_url parse self []) =
       bind (post c req0) (\<lambda>response.
       bind (getitem response ''userPresences'') (\<lambda>presences.
       bind (py_iter presences) (comprehension (Presence_init parse c))))"
    unfolding snd_get_user_presences req0_def c_def by simp
  have 9: "post c req0 = Inr (JObj [(''userPresences'', JArr [])]) \<longrightarrow>
       snd (get_user_presences post get_url parse self []) = Inr []"
    by (simp add: s0)
  have 10: "\<forall>e. post c req0 = Inl e \<longrightarrow>
         snd (get_user_presences post get_url parse self []) = Inl e"
    by (simp add: s0)
  show ?thesis
    by (rule conjI [OF 1 conjI [OF 2 conjI [OF s conjI [OF 4 conjI [OF 5 conjI [OF 6
          conjI [OF 7(1) conjI [OF 7(2) conjI [OF 7(3) conjI [OF 7(4) conjI [OF 8
          conjI [OF 9 10]]]]]]]]]]]])
qed

theorem one_request_with_all_user_ids_witness:
  "fst (get_user_presences
          (reply_to
             \<lparr>request_method = ''POST'',
              request_url = ''https://presence.roblox.com/v1/presence/users'',
              request_json = JObj [(''userIds'', JArr [JInt 5, JInt 789, JInt 1])]\<rparr>
             (JObj [(''userPresences'', JArr [JObj example_presence])]))
          example_get_url example_parse \<lparr>PresenceProvider_client = ''client''\<rparr>
          [UserId 5, UserObj \<lparr>BaseUser_client = ''client'', BaseUser_id = 789\<rparr>, UserId 1])
     = [\<lparr>request_method = ''POST'',
         request_url = ''https://presence.roblox.com/v1/presence/users'',
         request_json = JObj [(''userIds'', JArr [JInt 5, JInt 789, JInt 1])]\<rparr>]
   \<and> snd (get_user_presences
          (reply_to
             \<lparr>request_method = ''POST'',
              request_url = ''https://presence.roblox.com/v1/presence/users'',
              request_json = JObj [(''userIds'', JArr [JInt 5, JInt 789, JInt 1])]\<rparr>
             (JObj [(''userPresences'', JArr [JObj example_presence])]))
          example_get_url example_parse \<lparr>PresenceProvider_client = ''client''\<rparr>
          [UserId 5, UserObj \<lparr>BaseUser_client = ''client'', BaseUser_id = 789\<rparr>, UserId 1])
     = comprehension (Presence_init example_parse ''client'') [JObj example_presence]
   \<and> snd (get_user_presences (refuse_with (RequestError ''offline''))
          example_get_url example_parse \<lparr>PresenceProvider_client = ''client''\<rparr>
          [UserId 5, UserObj \<lparr>BaseUser_client = ''client'', BaseUser_id = 789\<rparr>, UserId 1])
     = Inl (RequestError ''offline'')
   \<and> fst (get_user_presences
          (reply_to
             \<lparr>request_method = ''POST'',
              request_url = ''https://presence.roblox.com/v1/presence/users'',
              request_json = JObj [(''userIds'', JArr [])]\<rparr>
             (JObj [(''userPresences'', JArr [])]))
          example_get_url example_parse \<lparr>PresenceProvider_client = ''client''\<rparr> [])
     = [\<lparr>request_method = ''POST'',
         request_url = ''https://presence.roblox.com/v1/presence/users'',
         request_json = JObj [(''userIds'', JArr [])]\<rparr>]
   \<and> snd (get_user_presences
          (reply_to
             \<lparr>request_method = ''POST'',
              request_url = ''https://presence.roblox.com/v1/presence/users'',
              request_json = JObj [(''userIds'', JArr [])]\<rparr>
             (JObj [(''userPresences'', JArr [])]))
          example_get_url example_parse \<lparr>PresenceProvider_client = ''client''\<rparr> [])
     = Inr []"
proof -
  let ?req = "\<lparr>request_method = ''POST'',
              request_url = ''https://presence.roblox.com/v1/presence/users'',
              request_json = JObj [(''userIds'', JArr [JInt 5, JInt 789, JInt 1])]\<rparr>"
  let ?reqE = "\<lparr>request_method = ''POST'',
              request_url = ''https://presence.roblox.com/v1/presence/users'',
              request_json = JObj [(''userIds'', JArr [])]\<rparr>"
  let ?post = "reply_to ?req (JObj [(''userPresences'', JArr [JObj example_presence])])
                 :: string \<Rightarrow> request \<Rightarrow> py_error + json"
  let ?postE = "reply_to ?reqE (JObj [(''userPresences'', JArr [])])
                 :: string \<Rightarrow> request \<Rightarrow> py_error + json"
  let ?refuse = "refuse_with (RequestError ''offline'')
                 :: string \<Rightarrow> request \<Rightarrow> py_error + json"
  let ?self = "\<lparr>PresenceProvider_client = ''client''\<rparr>"
  let ?users = "[UserId 5, UserObj \<lparr>BaseUser_client = ''client'', BaseUser_id = 789\<rparr>, UserId 1]"
  have u: "example_get_url (PresenceProvider_client ?self) ''presence'' ''v1/presence/users''
             = ''https://presence.roblox.com/v1/presence/users''"
    by (simp add: example_get_url_def)
  have i: "map JInt (map py_int ?users) = [JInt 5, JInt 789, JInt 1]" by simp
  note w = one_request_with_all_user_ids [where post = ?post and get_url = example_get_url
      and parse = example_parse and self = ?self and users = ?users, unfolded u i]
  note 1 = w [THEN conjunct1]
  have a: "?post (PresenceProvider_client ?self) ?req
          = Inr (JObj [(''userPresences'', JArr [JObj example_presence])])"
    by (simp add: reply_to_def)
  from w [THEN conjunct2, THEN conjunct2, THEN conjunct2, THEN conjunct2, THEN conjunct1, THEN spec, THEN mp, OF a]
  have 2: "snd (get_user_presences ?post example_get_url example_parse ?self ?users)
     = comprehension (Presence_init example_parse ''client'') [JObj example_presence]"
    by simp
  note w' = one_request_with_all_user_ids [where post = ?refuse and get_url = example_get_url
      and parse = example_parse and self = ?self and users = ?users, unfolded u i]
  have b: "?refuse (PresenceProvider_client ?self) ?req = Inl (RequestError ''offline'')"
    by (simp add: refuse_with_def)
  note 3 = w' [THEN conjunct2, THEN conjunct2, THEN conjunct2, THEN conjunct1, THEN spec, THEN mp, OF b]
  note w0 = one_request_with_all_user_ids [where post = ?postE and get_url = example_get_url
      and parse = example_parse and self = ?self and users = ?users, unfolded u i]
  note 4 = w0 [THEN conjunct2, THEN conjunct2, THEN conjunct2, THEN conjunct2, THEN conjunct2, THEN conjunct2, THEN conjunct2, THEN conjunct2, THEN conjunct2, THEN conjunct2, THEN conjunct1]
  have c: "?postE (PresenceProvider_client ?self) ?reqE = Inr (JObj [(''userPresences'', JArr [])])"
    by (simp add: reply_to_def)
  note 5 = w0 [THEN conjunct2, THEN conjunct2, THEN conjunct2, THEN conjunct2, THEN conjunct2, THEN conjunct2, THEN conjunct2, THEN conjunct2, THEN conjunct2, THEN conjunct2, THEN conjunct2, THEN conjunct1, THEN mp, OF c]
  show ?thesis by (rule conjI [OF 1 conjI [OF 2 conjI [OF 3 conjI [OF 4 5]]]])
qed

section \<open>A response of the wrong shape\<close>

lemma comprehension_all_fail:
  assumes "\<forall>x\<in>set xs. f x = Inl e"
  shows "comprehension f xs = (if xs = [] then Inr [] else Inl e)"
  using assms by (cases xs) simp_all

lemma Presence_init_JStr: "Presence_init parse client (JStr s) = Inl TypeError"
  by (simp add: Presence_init_def)

lemma iterate_non_array:
  assumes "\<forall>es. v \<noteq> JArr es"
  shows "bind (py_iter v) (comprehension (Presence_init parse client)) =
           (if v = JStr [] \<or> v = JObj [] then Inr [] else Inl TypeError)"
proof (cases v)
  case (JStr s)
  have "comprehension (Presence_init parse client) (map (\<lambda>c. JStr [c]) s) =
          (if map (\<lambda>c. JStr [c]) s = [] then Inr [] else Inl TypeError)"
    by (rule comprehension_all_fail) (auto simp: Presence_init_JStr)
  then show ?thesis by (simp add: JStr)
next
  case (JObj d)
  have "comprehension (Presence_init parse client) (map JStr (remdups (map fst d))) =
          (if map JStr (remdups (map fst d)) = [] then Inr [] else Inl TypeError)"
    by (rule comprehension_all_fail) (auto simp: Presence_init_JStr)
  then show ?thesis by (simp add: JObj)
next
  case (JArr es)
  with assms show ?thesis by simp
qed simp_all

text \<open>
  C8 (as amended). When the decoded response is an object without the key
  \<open>userPresences\<close>, \<open>get_user_presences\<close> fails with the \<open>KeyError\<close> naming
  \<open>userPresences\<close>. When the key holds a value that is not an array, the call fails with
  \<open>TypeError\<close> for null, a boolean, a number, a non-empty string and a non-empty object,
  and never returns a record; for the empty string and the empty object it does not
  fail but returns the empty list, since iterating them yields nothing.
\<close>

theorem malformed_presence_response:
  fixes self :: "'c PresenceProvider"
    and get_url :: "'c \<Rightarrow> string \<Rightarrow> string \<Rightarrow> string"
    and users :: "'c UserOrUserId list"
  defines "c \<equiv> PresenceProvider_client self"
  defines "req \<equiv> \<lparr>request_method = ''POST'', request_url = get_url c ''presence'' ''v1/presence/users'',
                   request_json = JObj [(''userIds'', JArr (map JInt (map py_int users)))]\<rparr>"
  assumes "post c req = Inr (JObj resp)"
  shows "(map_of resp ''userPresences'' = None \<longrightarrow>
            snd (get_user_presences post get_url parse self users) = Inl (KeyError ''userPresences''))
       \<and> (\<forall>v. map_of resp ''userPresences'' = Some v \<and> (\<forall>es. v \<noteq> JArr es) \<longrightarrow>
            snd (get_user_presences post get_url parse self users) =
              (if v = JStr [] \<or> v = JObj [] then Inr [] else Inl TypeError))"
proof -
  have 1: "map_of resp ''userPresences'' = None \<longrightarrow>
            snd (get_user_presences post get_url parse self users) = Inl (KeyError ''userPresences'')"
    using assms(3) unfolding snd_get_user_presences c_def req_def by simp
  have 2: "\<forall>v. map_of resp ''userPresences'' = Some v \<and> (\<forall>es. v \<noteq> JArr es) \<longrightarrow>
            snd (get_user_presences post get_url parse self users) =
              (if v = JStr [] \<or> v = JObj [] then Inr [] else Inl TypeError)"
  proof (intro allI impI)
    fix v assume v: "map_of resp ''userPresences'' = Some v \<and> (\<forall>es. v \<noteq> JArr es)"
    then have "snd (get_user_presences post get_url parse self users) =
                 bind (py_iter v) (comprehension (Presence_init parse c))"
      using assms(3) unfolding snd_get_user_presences c_def req_def by simp
    also have "\<dots> = (if v = JStr [] \<or> v = JObj [] then Inr [] else Inl TypeError)"
      using v by (intro iterate_non_array) blast
    finally show "snd (get_user_presences post get_url parse self users) =
              (if v = JStr [] \<or> v = JObj [] then Inr [] else Inl TypeError)" .
  qed
  show ?thesis by (rule conjI [OF 1 2])
qed

theorem malformed_presence_response_witness:
  "snd (get_user_presences (reply_with (JObj [(''errors'', JArr [])]))
          example_get_url example_parse \<lparr>PresenceProvider_client = ''client''\<rparr> [UserId 1])
     = Inl (KeyError ''userPresences'')
   \<and> snd (get_user_presences (reply_with (JObj [(''userPresences'', JNull)]))
          example_get_url example_parse \<lparr>PresenceProvider_client = ''client''\<rparr> [UserId 1])
     = Inl TypeError
   \<and> snd (get_user_presences (reply_with (JObj [(''userPresences'', JStr ''none'')]))
          example_get_url example_parse \<lparr>PresenceProvider_client = ''client''\<rparr> [UserId 1])
     = Inl TypeError"
proof -
  let ?self = "\<lparr>PresenceProvider_client = ''client''\<rparr>"
  let ?users = "[UserId 1] :: string UserOrUserId list"
  have p: "reply_with (JObj resp) (PresenceProvider_client ?self)
             \<lparr>request_method = ''POST'', request_url = example_get_url (PresenceProvider_client ?self) ''presence'' ''v1/presence/users'',
              request_json = JObj [(''userIds'', JArr (map JInt (map py_int ?users)))]\<rparr>
           = Inr (JObj resp)" for resp
    by (simp add: reply_with_def)
  from malformed_presence_response [where post = "reply_with (JObj [(''errors'', JArr [])])" and get_url = example_get_url
      and self = ?self and users = ?users and resp = "[(''errors'', JArr [])]" and parse = example_parse, OF p]
  have 1: "snd (get_user_presences (reply_with (JObj [(''errors'', JArr [])]))
          example_get_url example_parse ?self ?users) = Inl (KeyError ''userPresences'')"
    by simp
  from malformed_presence_response [where post = "reply_with (JObj [(''userPresences'', JNull)])" and get_url = example_get_url
      and self = ?self and users = ?users and resp = "[(''userPresences'', JNull)]" and parse = example_parse, OF p]
  have 2: "snd (get_user_presences (reply_with (JObj [(''userPresences'', JNull)]))
          example_get_url example_parse ?self ?users) = Inl TypeError"
    by simp
  from malformed_presence_response [where post = "reply_with (JObj [(''userPresences'', JStr ''none'')])" and get_url = example_get_url
      and self = ?self and users = ?users and resp = "[(''userPresences'', JStr ''none'')]" and parse = example_parse, OF p]
  have 3: "snd (get_user_presences (reply_with (JObj [(''userPresences'', JStr ''none'')]))
          example_get_url example_parse ?self ?users) = Inl TypeError"
    by simp
  show ?thesis by (rule conjI [OF 1 conjI [OF 2 3]])
qed

theorem empty_string_is_not_rejected:
  "snd (get_user_presences (reply_with (JObj [(''userPresences'', JStr '''')]))
          example_get_url example_parse \<lparr>PresenceProvider_client = ''client''\<rparr> [UserId 1])
     = Inr []
   \<and> snd (get_user_presences (reply_with (JObj [(''userPresences'', JObj [])]))
          example_get_url example_parse \<lparr>PresenceProvider_client = ''client''\<rparr> [UserId 1])
     = Inr []"
  by (simp add: snd_get_user_presences reply_with_def)

section \<open>The fields of a shout\<close>

lemma Shout_init_JObj:
  "Shout_init PU parse shared (JObj d) =
     (case map_of d ''body'' of
        None \<Rightarrow> Inl (KeyError ''body'')
      | Some b \<Rightarrow>
     (case map_of d ''created'' of
        None \<Rightarrow> Inl (KeyError ''created'')
      | Some c_raw \<Rightarrow>
     (case parse c_raw of
        Inl e \<Rightarrow> Inl e
      | Inr c \<Rightarrow>
     (case map_of d ''updated'' of
        None \<Rightarrow> Inl (KeyError ''updated'')
      | Some u_raw \<Rightarrow>
     (case parse u_raw of
        Inl e \<Rightarrow> Inl e
      | Inr u \<Rightarrow>
     (case map_of d ''poster'' of
        None \<Rightarrow> Inl (KeyError ''poster'')
      | Some p_raw \<Rightarrow>
     (case PU shared p_raw of
        Inl e \<Rightarrow> Inl e
      | Inr p \<Rightarrow>
          Inr \<lparr>Shout_shared = shared, body = b, created = c, updated = u, poster = p\<rparr>)))))))"
proof (cases "map_of d ''body''")
  case None
  then show ?thesis by (simp add: Shout_init_def)
next
  case b: (Some b)
  show ?thesis
  proof (cases "map_of d ''created''")
    case None
    with b show ?thesis by (simp add: Shout_init_def)
  next
    case c: (Some c_raw)
    show ?thesis
    proof (cases "parse c_raw")
      case (Inl e)
      with b c show ?thesis by (simp add: Shout_init_def)
    next
      case pc: (Inr tc)
      show ?thesis
      proof (cases "map_of d ''updated''")
        case None
        with b c pc show ?thesis by (simp add: Shout_init_def)
      next
        case u: (Some u_raw)
        show ?thesis
        proof (cases "parse u_raw")
          case (Inl e)
          with b c pc u show ?thesis by (simp add: Shout_init_def)
        next
          case pu: (Inr tu)
          show ?thesis
          proof (cases "map_of d ''poster''")
            case None
            with b c pc u pu show ?thesis by (simp add: Shout_init_def)
          next
            case p: (Some p_raw)
            with b c pc u pu show ?thesis
              by (cases "PU shared p_raw") (simp_all add: Shout_init_def)
          qed
        qed
      qed
    qed
  qed
qed

lemma Shout_init_needs_all_fields:
  assumes "Shout_init PU parse shared (JObj d) = Inr s"
  shows "map_of d ''body'' \<noteq> None \<and> map_of d ''created'' \<noteq> None
       \<and> map_of d ''updated'' \<noteq> None \<and> map_of d ''poster'' \<noteq> None"
  using Shout_init_Inr_fields(2-5) [OF assms] by (auto split: option.splits)

text \<open>
  C6 (as amended). For every shout payload that carries \<open>body\<close>, \<open>created\<close>,
  \<open>updated\<close> and \<open>poster\<close>, whose two timestamps parse and whose poster object the
  partial-user constructor accepts, the constructor returns the record with the
  payload's body, the two parsed timestamps, and the partial-user reference built from
  the poster object with the same shared context. If any of the four fields is absent
  the construction fails and returns no record; the error is the \<open>KeyError\<close> naming the
  absent field when everything evaluated before it (in the order body, created, updated,
  poster) is present and parses. As stated the claim fails: with \<open>updated\<close> absent and an
  unparseable \<open>created\<close> the error is the parser's, and a payload with all four fields
  and an unparseable \<open>created\<close> gives no record.
\<close>

theorem shout_fields_mandatory:
  "(\<forall>b c u p tc tu pu.
       map_of d ''body'' = Some b \<and> map_of d ''created'' = Some c
     \<and> map_of d ''updated'' = Some u \<and> map_of d ''poster'' = Some p
     \<and> parse c = Inr tc \<and> parse u = Inr tu \<and> PU shared p = Inr pu \<longrightarrow>
       Shout_init PU parse shared (JObj d) =
         Inr \<lparr>Shout_shared = shared, body = b, created = tc, updated = tu, poster = pu\<rparr>)
   \<and> (map_of d ''body'' = None \<or> map_of d ''created'' = None
        \<or> map_of d ''updated'' = None \<or> map_of d ''poster'' = None \<longrightarrow>
       (\<forall>s. Shout_init PU parse shared (JObj d) \<noteq> Inr s))
   \<and> (map_of d ''body'' = None \<longrightarrow>
       Shout_init PU parse shared (JObj d) = Inl (KeyError ''body''))
   \<and> (\<forall>b. map_of d ''body'' = Some b \<and> map_of d ''created'' = None \<longrightarrow>
       Shout_init PU parse shared (JObj d) = Inl (KeyError ''created''))
   \<and> (\<forall>b c tc. map_of d ''body'' = Some b \<and> map_of d ''created'' = Some c \<and> parse c = Inr tc
        \<and> map_of d ''updated'' = None \<longrightarrow>
       Shout_init PU parse shared (JObj d) = Inl (KeyError ''updated''))
   \<and> (\<forall>b c tc u tu. map_of d ''body'' = Some b \<and> map_of d ''created'' = Some c \<and> parse c = Inr tc
        \<and> map_of d ''updated'' = Some u \<and> parse u = Inr tu \<and> map_of d ''poster'' = None \<longrightarrow>
       Shout_init PU parse shared (JObj d) = Inl (KeyError ''poster''))"
  (is "?A \<and> ?B \<and> ?C \<and> ?D \<and> ?E \<and> ?F")
proof -
  have a: ?A by (simp add: Shout_init_JObj)
  have b: ?B
  proof
    assume h: "map_of d ''body'' = None \<or> map_of d ''created'' = None
        \<or> map_of d ''updated'' = None \<or> map_of d ''poster'' = None"
    show "\<forall>s. Shout_init PU parse shared (JObj d) \<noteq> Inr s"
    proof (rule allI, rule notI)
      fix s assume "Shout_init PU parse shared (JObj d) = Inr s"
      from Shout_init_needs_all_fields [OF this] h show False by auto
    qed
  qed
  have c: ?C by (simp add: Shout_init_JObj)
  have d: ?D by (simp add: Shout_init_JObj)
  have e: ?E by (simp add: Shout_init_JObj)
  have f: ?F by (simp add: Shout_init_JObj)
  show ?thesis
    by (rule conjI [OF a conjI [OF b conjI [OF c conjI [OF d conjI [OF e f]]]]])
qed

theorem shout_fields_mandatory_witness:
  "Shout_init PartialUser_init example_parse ''shared'' (JObj example_shout) =
     Inr \<lparr>Shout_shared = ''shared'', body = JStr ''hi'',
          created = ''2023-01-01T00:00:00Z'', updated = ''2023-01-02T00:00:00Z'',
          poster = \<lparr>PartialUser_shared = ''shared'',
                    PartialUser_data = JObj [(''userId'', JInt 1), (''username'', JStr ''a'')]\<rparr>\<rparr>
   \<and> Shout_init PartialUser_init example_parse ''shared''
        (JObj [(''body'', JStr ''hi''),
               (''created'', JStr ''2023-01-01T00:00:00Z''),
               (''updated'', JStr ''2023-01-02T00:00:00Z'')]) = Inl (KeyError ''poster'')
   \<and> Shout_init PartialUser_init example_parse ''shared''
        (JObj [(''created'', JStr ''2023-01-01T00:00:00Z''),
               (''updated'', JStr ''2023-01-02T00:00:00Z''),
               (''poster'', JObj [(''userId'', JInt 1), (''username'', JStr ''a'')])])
       = Inl (KeyError ''body'')"
proof -
  let ?d2 = "[(''body'', JStr ''hi''),
               (''created'', JStr ''2023-01-01T00:00:00Z''),
               (''updated'', JStr ''2023-01-02T00:00:00Z'')]"
  let ?d3 = "[(''created'', JStr ''2023-01-01T00:00:00Z''),
               (''updated'', JStr ''2023-01-02T00:00:00Z''),
               (''poster'', JObj [(''userId'', JInt 1), (''username'', JStr ''a'')])]"
  have p: "example_parse (JStr ''2023-01-01T00:00:00Z'') = Inr ''2023-01-01T00:00:00Z''"
    "example_parse (JStr ''2023-01-02T00:00:00Z'') = Inr ''2023-01-02T00:00:00Z''"
    by (simp_all add: example_parse_def)
  have m: "map_of example_shout ''body'' = Some (JStr ''hi'')"
    "map_of example_shout ''created'' = Some (JStr ''2023-01-01T00:00:00Z'')"
    "map_of example_shout ''updated'' = Some (JStr ''2023-01-02T00:00:00Z'')"
    "map_of example_shout ''poster'' = Some (JObj [(''userId'', JInt 1), (''username'', JStr ''a'')])"
    by (simp_all add: example_shout_def)
  from shout_fields_mandatory [of example_shout example_parse PartialUser_init "''shared''"] m p
  have 1: "Shout_init PartialUser_init example_parse ''shared'' (JObj example_shout) =
     Inr \<lparr>Shout_shared = ''shared'', body = JStr ''hi'',
          created = ''2023-01-01T00:00:00Z'', updated = ''2023-01-02T00:00:00Z'',
          poster = \<lparr>PartialUser_shared = ''shared'',
                    PartialUser_data = JObj [(''userId'', JInt 1), (''username'', JStr ''a'')]\<rparr>\<rparr>"
    by (simp add: PartialUser_init_def)
  from shout_fields_mandatory [of ?d2 example_parse PartialUser_init "''shared''"] p
  have 2: "Shout_init PartialUser_init example_parse ''shared'' (JObj ?d2) = Inl (KeyError ''poster'')"
    by simp
  from shout_fields_mandatory [of ?d3 example_parse PartialUser_init "''shared''"]
  have 3: "Shout_init PartialUser_init example_parse ''shared'' (JObj ?d3) = Inl (KeyError ''body'')"
    by simp
  show ?thesis by (rule conjI [OF 1 conjI [OF 2 3]])
qed

theorem shout_missing_field_other_error_first:
  "map_of [(''body'', JStr ''hi''),
           (''created'', JStr ''yesterday''),
           (''poster'', JObj [(''userId'', JInt 1), (''username'', JStr ''a'')])] ''updated'' = None
   \<and> Shout_init PartialUser_init example_parse ''shared''
        (JObj [(''body'', JStr ''hi''),
               (''created'', JStr ''yesterday''),
               (''poster'', JObj [(''userId'', JInt 1), (''username'', JStr ''a'')])])
       = Inl (ParserError ''yesterday'')
   \<and> Shout_init PartialUser_init example_parse ''shared''
        (JObj [(''body'', JStr ''hi''),
               (''created'', JStr ''yesterday''),
               (''updated'', JStr ''2023-01-02T00:00:00Z''),
               (''poster'', JObj [(''userId'', JInt 1), (''username'', JStr ''a'')])])
       = Inl (ParserError ''yesterday'')"
  by (simp add: Shout_init_JObj example_parse_def)

section \<open>Timestamps\<close>









end
